theory Spec2Isabelle
  imports Complex_Main "HOL-Library.Word" "HOL-Library.Multiset"
begin

section \<open>Point Distribute: stable scattering with minimum-distance elimination\<close>

text \<open>
  This theory embeds the geometry node \<open>Point Distribute\<close> of
  \<^verbatim>\<open>source/blender/compositor/operations/COM_SetVectorOperation.h\<close> (lines 477 to 803,
  namespace \<open>blender::nodes\<close>): the two scatter loops, the elimination mask, the
  compaction of the three parallel arrays, the attribute finalization and the node's
  execute function.

  Conventions of the embedding.
  \<^item> C \<open>float\<close> is read as \<open>real\<close>: rounding, infinities and NaN are outside the model.
  \<^item> C \<open>int\<close> used as an identifier, a seed or a number of points is a \<open>32 word\<close>,
    so that additions wrap and the cast of a float is bounded; loop counters and array
    indices are \<open>nat\<close>.
  \<^item> A raw C array (\<open>mesh->mloop\<close>, \<open>mesh->mvert\<close>) is a function from indices, a
    \<open>Span\<close> or \<open>Vector\<close> is a list.
  \<^item> A vector passed by reference and appended to is passed in and returned.
  \<^item> The functions the node calls but whose bodies are in other files of the
    repository (hashing, the random number generator, triangle area, normal and
    interpolation, the conversion to Euler angles) are the fields of the record
    \<open>host\<close>; every definition below takes it as its first argument.
\<close>

subsection \<open>Vectors, mesh and point cloud\<close>

datatype float3 = float3 real real real

text \<open>
  Modelled from the spec: \<open>len_squared_v3v3\<close> (of the vector math header) is the
  squared Euclidean distance of two points; the proximity index compares it with the
  squared radius of a query. \<open>len_v3v3\<close> is the distance itself.
\<close>

fun len_squared_v3v3 :: "float3 \<Rightarrow> float3 \<Rightarrow> real" where
  "len_squared_v3v3 (float3 a0 a1 a2) (float3 b0 b1 b2) =
     (b0 - a0) * (b0 - a0) + (b1 - a1) * (b1 - a1) + (b2 - a2) * (b2 - a2)"

definition len_v3v3 :: "float3 \<Rightarrow> float3 \<Rightarrow> real" where
  "len_v3v3 a b = sqrt (len_squared_v3v3 a b)"

record MLoop =
  mloop_v :: nat

record MVert =
  mvert_co :: float3

datatype MLoopTri = MLoopTri (tri_0: nat) (tri_1: nat) (tri_2: nat)

record MPoly =
  loopstart :: nat
  totloop :: nat

text \<open>
  The mesh: \<open>mloop\<close>, \<open>mvert\<close> and \<open>mpoly\<close> are the raw arrays of the source (\<open>mpoly\<close>
  may be the null pointer), \<open>runtime_looptris\<close> is the triangle cache that
  \<open>BKE_mesh_runtime_looptri_ensure\<close> returns, \<open>point_attributes\<close> the named float
  attributes on the point domain.
\<close>

record Mesh =
  mloop :: "nat \<Rightarrow> MLoop"
  mvert :: "nat \<Rightarrow> MVert"
  mpoly :: "(nat \<Rightarrow> MPoly) option"
  runtime_looptris :: "MLoopTri list"
  point_attributes :: "string \<rightharpoonup> (nat \<Rightarrow> real)"

text \<open>
  The point cloud with the attributes the node writes: \<open>co\<close> and \<open>radius\<close> are the
  arrays of the \<open>PointCloud\<close> struct, \<open>attr_id\<close>, \<open>attr_normal\<close> and \<open>attr_rotation\<close>
  the attributes \<open>"id"\<close>, \<open>"normal"\<close> and \<open>"rotation"\<close> of its component.
\<close>

record PointCloud =
  co :: "float3 list"
  radius :: "real list"
  attr_id :: "32 word list"
  attr_normal :: "float3 list"
  attr_rotation :: "float3 list"

text \<open>
  A geometry set: \<open>has_mesh\<close> holds when \<open>mesh_component\<close> is not \<open>None\<close>, and
  the mesh read from the component is then that mesh.
\<close>

record GeometrySet =
  mesh_component :: "Mesh option"
  pointcloud_component :: "PointCloud option"

datatype GeometryNodePointDistributeMethod =
  GEO_NODE_POINT_DISTRIBUTE_RANDOM | GEO_NODE_POINT_DISTRIBUTE_POISSON

text \<open>
  The inputs of one execution of the node: the sockets \<open>"Geometry"\<close>,
  \<open>"Distance Min"\<close>, \<open>"Density Max"\<close>, \<open>"Density Attribute"\<close> and \<open>"Seed"\<close>, and the
  node's \<open>custom1\<close>, which holds the distribution method.
\<close>

record GeoNodeExecParams =
  input_geometry :: GeometrySet
  input_distance_min :: real
  input_density_max :: real
  input_density_attribute :: string
  input_seed :: "32 word"
  node_custom1 :: GeometryNodePointDistributeMethod

subsection \<open>Functions of other files\<close>

text \<open>
  The bodies of these functions are not in the file; they are parameters. \<open>'r\<close> is
  the state of a \<open>RandomNumberGenerator\<close>: \<open>rng_new\<close> is its constructor from a seed,
  \<open>get_float\<close> and \<open>get_barycentric_coordinates\<close> return the drawn value and the
  state after the draw.
\<close>

record 'r host =
  BLI_hash_int :: "32 word \<Rightarrow> 32 word"
  rng_new :: "32 word \<Rightarrow> 'r"
  get_float :: "'r \<Rightarrow> real \<times> 'r"
  get_barycentric_coordinates :: "'r \<Rightarrow> float3 \<times> 'r"
  float3_hash :: "float3 \<Rightarrow> 64 word"
  area_tri_v3 :: "float3 \<Rightarrow> float3 \<Rightarrow> float3 \<Rightarrow> real"
  normal_tri_v3 :: "float3 \<Rightarrow> float3 \<Rightarrow> float3 \<Rightarrow> float3"
  interp_v3_v3v3v3 :: "float3 \<Rightarrow> float3 \<Rightarrow> float3 \<Rightarrow> float3 \<Rightarrow> float3"
  vec_to_quat :: "float3 \<Rightarrow> int \<Rightarrow> int \<Rightarrow> real \<times> real \<times> real \<times> real"
  quat_to_eul :: "real \<times> real \<times> real \<times> real \<Rightarrow> float3"
  OB_NEGZ :: int
  OB_POSY :: int

text \<open>
  Modelled from the spec: \<open>fractf\<close> (declared in the math headers) is the fractional
  part, the number minus its floor.
\<close>

definition fractf :: "real \<Rightarrow> real" where
  "fractf a = a - of_int \<lfloor>a\<rfloor>"

text \<open>
  The C cast \<open>(int)\<close> of a float to the 32-bit \<open>int\<close>: truncation towards zero when
  the truncated value fits. When it does not fit, C leaves the cast undefined; the
  model takes \<open>INT_MIN\<close>, the value that the conversion instruction of x86-64 returns.
\<close>

definition float_to_int :: "real \<Rightarrow> 32 word" where
  "float_to_int a =
     (let truncated = (if 0 \<le> a then \<lfloor>a\<rfloor> else \<lceil>a\<rceil>)
      in if - (2 ^ 31) \<le> truncated \<and> truncated < 2 ^ 31 then word_of_int truncated
         else word_of_int (- (2 ^ 31)))"

text \<open>
  Modelled from the spec: \<open>Vector::remove_and_reorder\<close> (declared in the vector
  header) removes the element at the index by moving the last element into its place
  and shrinking the vector by one.
\<close>

definition remove_and_reorder :: "nat \<Rightarrow> 'a list \<Rightarrow> 'a list" where
  "remove_and_reorder i xs =
     (if i < length xs - 1 then butlast (xs[i := last xs]) else butlast xs)"

text \<open>
  Modelled from the spec: \<open>Vector::resize\<close> keeps the first \<open>n\<close> elements and fills
  up to length \<open>n\<close>; the value of a new slot is \<open>fill\<close>.
\<close>

definition resize :: "nat \<Rightarrow> 'a \<Rightarrow> 'a list \<Rightarrow> 'a list" where
  "resize n fill xs = take n xs @ replicate (n - length xs) fill"

text \<open>
  Modelled from the spec: the proximity index (\<open>BLI_kdtree_3d\<close>, in another file).
  Points are inserted with their index, the index is then balanced, and a range
  query calls the callback on every inserted point within the radius of the centre,
  until the callback returns false. The order of the calls is left open by the spec;
  here it is the insertion order.
\<close>

datatype KDTree_3d = KDTree_3d (nodes: "(nat \<times> float3) list")

text \<open>Modelled from the spec: \<open>BLI_kdtree_3d_new\<close> makes an index without points.\<close>

definition BLI_kdtree_3d_new :: "nat \<Rightarrow> KDTree_3d" where
  "BLI_kdtree_3d_new maxsize = KDTree_3d []"

text \<open>
  Modelled from the spec: \<open>BLI_kdtree_3d_insert\<close> adds a point under the given index.
\<close>

definition BLI_kdtree_3d_insert :: "KDTree_3d \<Rightarrow> nat \<Rightarrow> float3 \<Rightarrow> KDTree_3d" where
  "BLI_kdtree_3d_insert tree i p = KDTree_3d (nodes tree @ [(i, p)])"

text \<open>
  Modelled from the spec: \<open>BLI_kdtree_3d_balance\<close> finalizes the index after the bulk
  insertion; it keeps the set of inserted points.
\<close>

definition BLI_kdtree_3d_balance :: "KDTree_3d \<Rightarrow> KDTree_3d" where
  "BLI_kdtree_3d_balance tree = tree"

text \<open>
  Modelled from the spec: the traversal of a range query over the inserted points,
  with the squared radius. A point is reported when its squared distance to the
  centre is at most the squared radius.
\<close>

fun range_search_nodes ::
  "(nat \<times> float3) list \<Rightarrow> float3 \<Rightarrow> real \<Rightarrow>
   ('d \<Rightarrow> nat \<Rightarrow> float3 \<Rightarrow> real \<Rightarrow> bool \<times> 'd) \<Rightarrow> 'd \<Rightarrow> 'd" where
  "range_search_nodes [] center range_sq search_cb user_data = user_data"
| "range_search_nodes ((i, p) # rest) center range_sq search_cb user_data =
     (let dist_sq = len_squared_v3v3 p center in
      if dist_sq \<le> range_sq then
        (case search_cb user_data i p dist_sq of
           (continue, user_data') \<Rightarrow>
             if continue then range_search_nodes rest center range_sq search_cb user_data'
             else user_data')
      else range_search_nodes rest center range_sq search_cb user_data)"

text \<open>
  Modelled from the spec: \<open>BLI_kdtree_3d_range_search_cb\<close>, the radius range query
  with a callback and its user data.
\<close>

definition BLI_kdtree_3d_range_search_cb ::
  "KDTree_3d \<Rightarrow> float3 \<Rightarrow> real \<Rightarrow>
   ('d \<Rightarrow> nat \<Rightarrow> float3 \<Rightarrow> real \<Rightarrow> bool \<times> 'd) \<Rightarrow> 'd \<Rightarrow> 'd" where
  "BLI_kdtree_3d_range_search_cb tree center search_range search_cb user_data =
     (let range_sq = search_range * search_range
      in range_search_nodes (nodes tree) center range_sq search_cb user_data)"

text \<open>
  Modelled from the spec: \<open>attribute_get_for_read\<close> of the mesh component reads a
  named float attribute of the point domain, with a default value where the mesh has
  no attribute of that name.
\<close>

definition attribute_get_for_read :: "Mesh \<Rightarrow> string \<Rightarrow> real \<Rightarrow> nat \<Rightarrow> real" where
  "attribute_get_for_read mesh attribute_name default_value =
     (case point_attributes mesh attribute_name of
        None \<Rightarrow> (\<lambda>_. default_value)
      | Some values \<Rightarrow> values)"

subsection \<open>The node\<close>

definition normal_to_euler_rotation :: "'r host \<Rightarrow> float3 \<Rightarrow> float3" where
  "normal_to_euler_rotation h normal =
     (let quat = vec_to_quat h normal (OB_NEGZ h) (OB_POSY h) in quat_to_eul h quat)"

definition get_mesh_looptris :: "Mesh \<Rightarrow> MLoopTri list" where
  "get_mesh_looptris mesh = runtime_looptris mesh"

text \<open>
  The inner loop of \<open>random_scatter_points_from_mesh\<close> (lines 555 to 567), run
  \<open>point_amount\<close> times: it draws a barycentric coordinate and appends the point,
  its id and the normal of the triangle.
\<close>

fun random_scatter_emit ::
  "'r host \<Rightarrow> nat \<Rightarrow> nat \<Rightarrow> float3 \<Rightarrow> float3 \<Rightarrow> float3 \<Rightarrow> 'r \<Rightarrow>
   float3 list \<times> float3 list \<times> 32 word list \<Rightarrow>
   float3 list \<times> float3 list \<times> 32 word list" where
  "random_scatter_emit h 0 looptri_index v0_pos v1_pos v2_pos looptri_rng st = st"
| "random_scatter_emit h (Suc n) looptri_index v0_pos v1_pos v2_pos looptri_rng
       (points, r_normals, r_ids) =
     (case get_barycentric_coordinates h looptri_rng of
        (bary_coords, looptri_rng') \<Rightarrow>
          let point_pos = interp_v3_v3v3v3 h v0_pos v1_pos v2_pos bary_coords;
              tri_normal = normal_tri_v3 h v0_pos v1_pos v2_pos
          in random_scatter_emit h n looptri_index v0_pos v1_pos v2_pos looptri_rng'
               (points @ [point_pos],
                r_normals @ [tri_normal],
                r_ids @ [ucast (float3_hash h bary_coords) + word_of_nat looptri_index]))"

text \<open>
  The body of the loop over the triangles (lines 532 to 567). \<open>point_amount\<close> is a
  32-bit \<open>int\<close>: the sum of line 553 wraps, and the loop of line 555, which counts
  \<open>i\<close> from 0 while \<open>i < point_amount\<close>, runs \<open>nat (sint point_amount)\<close> times, that
  is not at all for a negative \<open>point_amount\<close>.
\<close>

definition random_scatter_looptri ::
  "'r host \<Rightarrow> Mesh \<Rightarrow> real \<Rightarrow> (nat \<Rightarrow> real) \<Rightarrow> 32 word \<Rightarrow> nat \<Rightarrow>
   float3 list \<times> float3 list \<times> 32 word list \<Rightarrow>
   float3 list \<times> float3 list \<times> 32 word list" where
  "random_scatter_looptri h mesh density density_factors seed looptri_index st =
     (let looptri = get_mesh_looptris mesh ! looptri_index;
          v0_index = mloop_v (mloop mesh (tri_0 looptri));
          v1_index = mloop_v (mloop mesh (tri_1 looptri));
          v2_index = mloop_v (mloop mesh (tri_2 looptri));
          v0_pos = mvert_co (mvert mesh v0_index);
          v1_pos = mvert_co (mvert mesh v1_index);
          v2_pos = mvert_co (mvert mesh v2_index);
          v0_density_factor = max 0 (density_factors v0_index);
          v1_density_factor = max 0 (density_factors v1_index);
          v2_density_factor = max 0 (density_factors v2_index);
          looptri_density_factor =
            (v0_density_factor + v1_density_factor + v2_density_factor) / 3;
          area = area_tri_v3 h v0_pos v1_pos v2_pos;
          looptri_seed = BLI_hash_int h (word_of_nat looptri_index + seed);
          looptri_rng = rng_new h looptri_seed;
          points_amount_fl = area * density * looptri_density_factor;
          add_point_probability = fractf points_amount_fl
      in case get_float h looptri_rng of
           (u, looptri_rng') \<Rightarrow>
             let add_point = add_point_probability > u;
                 point_amount = float_to_int points_amount_fl + (if add_point then 1 else 0)
             in random_scatter_emit h (nat (sint point_amount)) looptri_index
                  v0_pos v1_pos v2_pos looptri_rng' st)"

definition random_scatter_points_from_mesh ::
  "'r host \<Rightarrow> Mesh \<Rightarrow> real \<Rightarrow> (nat \<Rightarrow> real) \<Rightarrow> float3 list \<Rightarrow> 32 word list \<Rightarrow>
   32 word \<Rightarrow> float3 list \<times> float3 list \<times> 32 word list" where
  "random_scatter_points_from_mesh h mesh density density_factors r_normals r_ids seed =
     (let looptris = get_mesh_looptris mesh
      in foldl (\<lambda>st looptri_index.
                  random_scatter_looptri h mesh density density_factors seed looptri_index st)
           ([], r_normals, r_ids) [0..<length looptris])"

text \<open>The inner loop of \<open>initial_uniform_distribution\<close> (lines 599 to 606).\<close>

fun initial_uniform_emit ::
  "'r host \<Rightarrow> nat \<Rightarrow> nat \<Rightarrow> float3 \<Rightarrow> float3 \<Rightarrow> float3 \<Rightarrow> 'r \<Rightarrow>
   float3 list \<times> float3 list \<times> nat list \<Rightarrow>
   float3 list \<times> float3 list \<times> nat list" where
  "initial_uniform_emit h 0 looptri_index v0_pos v1_pos v2_pos looptri_rng st = st"
| "initial_uniform_emit h (Suc n) looptri_index v0_pos v1_pos v2_pos looptri_rng
       (r_positions, r_bary_coords, r_looptri_indices) =
     (case get_barycentric_coordinates h looptri_rng of
        (bary_coords, looptri_rng') \<Rightarrow>
          let point_pos = interp_v3_v3v3v3 h v0_pos v1_pos v2_pos bary_coords
          in initial_uniform_emit h n looptri_index v0_pos v1_pos v2_pos looptri_rng'
               (r_positions @ [point_pos],
                r_bary_coords @ [bary_coords],
                r_looptri_indices @ [looptri_index]))"

text \<open>
  The body of the loop over the triangles (lines 583 to 606), with the same 32-bit
  \<open>point_amount\<close> (line 597) and loop (line 599).
\<close>

definition initial_uniform_looptri ::
  "'r host \<Rightarrow> Mesh \<Rightarrow> real \<Rightarrow> 32 word \<Rightarrow> nat \<Rightarrow>
   float3 list \<times> float3 list \<times> nat list \<Rightarrow>
   float3 list \<times> float3 list \<times> nat list" where
  "initial_uniform_looptri h mesh density seed looptri_index st =
     (let looptri = get_mesh_looptris mesh ! looptri_index;
          v0_index = mloop_v (mloop mesh (tri_0 looptri));
          v1_index = mloop_v (mloop mesh (tri_1 looptri));
          v2_index = mloop_v (mloop mesh (tri_2 looptri));
          v0_pos = mvert_co (mvert mesh v0_index);
          v1_pos = mvert_co (mvert mesh v1_index);
          v2_pos = mvert_co (mvert mesh v2_index);
          area = area_tri_v3 h v0_pos v1_pos v2_pos;
          looptri_seed = BLI_hash_int h (word_of_nat looptri_index + seed);
          looptri_rng = rng_new h looptri_seed;
          points_amount_fl = area * density;
          add_point_probability = fractf points_amount_fl
      in case get_float h looptri_rng of
           (u, looptri_rng') \<Rightarrow>
             let add_point = add_point_probability > u;
                 point_amount = float_to_int points_amount_fl + (if add_point then 1 else 0)
             in initial_uniform_emit h (nat (sint point_amount)) looptri_index
                  v0_pos v1_pos v2_pos looptri_rng' st)"

definition initial_uniform_distribution ::
  "'r host \<Rightarrow> Mesh \<Rightarrow> real \<Rightarrow> 32 word \<Rightarrow> float3 list \<Rightarrow> float3 list \<Rightarrow> nat list \<Rightarrow>
   float3 list \<times> float3 list \<times> nat list" where
  "initial_uniform_distribution h mesh density seed r_positions r_bary_coords
       r_looptri_indices =
     (let looptris = get_mesh_looptris mesh
      in foldl (\<lambda>st looptri_index.
                  initial_uniform_looptri h mesh density seed looptri_index st)
           (r_positions, r_bary_coords, r_looptri_indices) [0..<length looptris])"

definition build_kdtree :: "float3 list \<Rightarrow> KDTree_3d" where
  "build_kdtree positions =
     (let kdtree = BLI_kdtree_3d_new (length positions);
          kdtree = foldl (\<lambda>tree i. BLI_kdtree_3d_insert tree i (positions ! i))
                     kdtree [0..<length positions]
      in BLI_kdtree_3d_balance kdtree)"

text \<open>
  The data handed to the callback of the range query: the index of the centre and
  the mask. In the source the mask of the callback data is the same memory as
  \<open>r_elimination_mask\<close>; here the mask is read back from the data after the query.
\<close>

record CallbackData =
  callback_index :: nat
  callback_elimination_mask :: "bool list"

text \<open>The callback of the range query (lines 639 to 645).\<close>

definition elimination_callback ::
  "CallbackData \<Rightarrow> nat \<Rightarrow> float3 \<Rightarrow> real \<Rightarrow> bool \<times> CallbackData" where
  "elimination_callback callback_data node_index node_co dist_sq =
     (if node_index \<noteq> callback_index callback_data
      then (True, callback_data\<lparr>callback_elimination_mask :=
                    (callback_elimination_mask callback_data)[node_index := True]\<rparr>)
      else (True, callback_data))"

text \<open>The body of the loop over the candidates (lines 626 to 646).\<close>

definition elimination_step ::
  "KDTree_3d \<Rightarrow> float3 list \<Rightarrow> real \<Rightarrow> bool list \<Rightarrow> nat \<Rightarrow> bool list" where
  "elimination_step kdtree positions minimum_distance r_elimination_mask i =
     (if r_elimination_mask ! i then r_elimination_mask
      else
        let callback_data =
              \<lparr>callback_index = i, callback_elimination_mask = r_elimination_mask\<rparr>
        in callback_elimination_mask
             (BLI_kdtree_3d_range_search_cb kdtree (positions ! i) minimum_distance
                elimination_callback callback_data))"

definition create_elimination_mask_for_close_points ::
  "float3 list \<Rightarrow> real \<Rightarrow> bool list \<Rightarrow> bool list" where
  "create_elimination_mask_for_close_points positions minimum_distance r_elimination_mask =
     (let kdtree = build_kdtree positions
      in foldl (elimination_step kdtree positions minimum_distance)
           r_elimination_mask [0..<length positions])"

text \<open>
  The loop of \<open>eliminate_points_based_on_mask\<close>: the first argument is the number
  of indices still to visit, so that \<open>Suc i\<close> visits the index \<open>i\<close> and goes on
  downwards.
\<close>

fun eliminate_loop ::
  "bool list \<Rightarrow> nat \<Rightarrow> float3 list \<times> float3 list \<times> nat list \<Rightarrow>
   float3 list \<times> float3 list \<times> nat list" where
  "eliminate_loop elimination_mask 0 st = st"
| "eliminate_loop elimination_mask (Suc i) (positions, bary_coords, looptri_indices) =
     eliminate_loop elimination_mask i
       (if elimination_mask ! i
        then (remove_and_reorder i positions,
              remove_and_reorder i bary_coords,
              remove_and_reorder i looptri_indices)
        else (positions, bary_coords, looptri_indices))"

definition eliminate_points_based_on_mask ::
  "bool list \<Rightarrow> float3 list \<Rightarrow> float3 list \<Rightarrow> nat list \<Rightarrow>
   float3 list \<times> float3 list \<times> nat list" where
  "eliminate_points_based_on_mask elimination_mask positions bary_coords looptri_indices =
     eliminate_loop elimination_mask (length positions)
       (positions, bary_coords, looptri_indices)"

text \<open>The body of the loop of \<open>compute_remaining_point_data\<close> (lines 673 to 686).\<close>

definition compute_remaining_point_step ::
  "'r host \<Rightarrow> Mesh \<Rightarrow> float3 list \<Rightarrow> nat list \<Rightarrow>
   float3 list \<times> 32 word list \<Rightarrow> nat \<Rightarrow> float3 list \<times> 32 word list" where
  "compute_remaining_point_step h mesh bary_coords looptri_indices st i =
     (case st of (r_normals, r_ids) \<Rightarrow>
        let looptri_index = looptri_indices ! i;
            looptri = get_mesh_looptris mesh ! looptri_index;
            bary_coord = bary_coords ! i;
            v0_index = mloop_v (mloop mesh (tri_0 looptri));
            v1_index = mloop_v (mloop mesh (tri_1 looptri));
            v2_index = mloop_v (mloop mesh (tri_2 looptri));
            v0_pos = mvert_co (mvert mesh v0_index);
            v1_pos = mvert_co (mvert mesh v1_index);
            v2_pos = mvert_co (mvert mesh v2_index)
        in (r_normals[i := normal_tri_v3 h v0_pos v1_pos v2_pos],
            r_ids[i := ucast (float3_hash h bary_coord) + word_of_nat looptri_index]))"

definition compute_remaining_point_data ::
  "'r host \<Rightarrow> Mesh \<Rightarrow> float3 list \<Rightarrow> nat list \<Rightarrow> float3 list \<Rightarrow> 32 word list \<Rightarrow>
   float3 list \<times> 32 word list" where
  "compute_remaining_point_data h mesh bary_coords looptri_indices r_normals r_ids =
     foldl (compute_remaining_point_step h mesh bary_coords looptri_indices)
       (r_normals, r_ids) [0..<length bary_coords]"

text \<open>
  The parameter \<open>density_factors\<close> is part of the signature in the source and is
  not read by the body.
\<close>

definition stable_random_scatter_with_minimum_distance ::
  "'r host \<Rightarrow> Mesh \<Rightarrow> real \<Rightarrow> real \<Rightarrow> (nat \<Rightarrow> real) \<Rightarrow> float3 list \<Rightarrow> 32 word list \<Rightarrow>
   32 word \<Rightarrow> float3 list \<times> float3 list \<times> 32 word list" where
  "stable_random_scatter_with_minimum_distance h mesh max_density minimum_distance
       density_factors r_normals r_ids seed =
     (case initial_uniform_distribution h mesh max_density seed [] [] [] of
        (positions, bary_coords, looptri_indices) \<Rightarrow>
          let elimination_mask = replicate (length positions) False;
              elimination_mask =
                create_elimination_mask_for_close_points positions minimum_distance
                  elimination_mask
          in case eliminate_points_based_on_mask elimination_mask positions bary_coords
                    looptri_indices of
               (positions, bary_coords, looptri_indices) \<Rightarrow>
                 let tot_output_points = length positions;
                     r_normals = resize tot_output_points (float3 0 0 0) r_normals;
                     r_ids = resize tot_output_points 0 r_ids
                 in case compute_remaining_point_data h mesh bary_coords looptri_indices
                           r_normals r_ids of
                      (r_normals, r_ids) \<Rightarrow> (positions, r_normals, r_ids))"

text \<open>
  The node's execute function. The result is the geometry set given to
  \<open>params.set_output\<close>; every early return of the source returns the empty
  geometry set.
\<close>

definition geo_node_point_distribute_exec :: "'r host \<Rightarrow> GeoNodeExecParams \<Rightarrow> GeometrySet" where
  "geo_node_point_distribute_exec h params =
     (let geometry_set = input_geometry params;
          geometry_set_out = \<lparr>mesh_component = None, pointcloud_component = None\<rparr>;
          distribute_method = node_custom1 params
      in case mesh_component geometry_set of
           None \<Rightarrow> geometry_set_out
         | Some mesh_in \<Rightarrow>
             let density = input_density_max params;
                 density_attribute = input_density_attribute params
             in if density \<le> 0 then geometry_set_out
                else if mpoly mesh_in = None then geometry_set_out
                else
                  let density_factors = attribute_get_for_read mesh_in density_attribute 1;
                      seed = input_seed params
                  in case (case distribute_method of
                             GEO_NODE_POINT_DISTRIBUTE_RANDOM \<Rightarrow>
                               random_scatter_points_from_mesh h mesh_in density
                                 density_factors [] [] seed
                           | GEO_NODE_POINT_DISTRIBUTE_POISSON \<Rightarrow>
                               let minimum_distance = input_distance_min params
                               in stable_random_scatter_with_minimum_distance h mesh_in
                                    density minimum_distance density_factors [] [] seed) of
                       (points, normals, stable_ids) \<Rightarrow>
                         let pointcloud =
                               \<lparr>co = points,
                                radius = replicate (length points) (5 / 100),
                                attr_id = stable_ids,
                                attr_normal = normals,
                                attr_rotation =
                                  map (\<lambda>i. normal_to_euler_rotation h (normals ! i))
                                    [0..<length points]\<rparr>
                         in geometry_set_out\<lparr>pointcloud_component := Some pointcloud\<rparr>)"

subsection \<open>Auxiliary definitions\<close>

text \<open>
  The loop of \<open>eliminate_points_based_on_mask\<close> on a single array. The source applies
  the same removal at the same index to each of its three arrays; \<open>compact_loop\<close> is
  what that does to one of them.
\<close>

fun compact_loop :: "bool list \<Rightarrow> nat \<Rightarrow> 'a list \<Rightarrow> 'a list" where
  "compact_loop elimination_mask 0 xs = xs"
| "compact_loop elimination_mask (Suc i) xs =
     compact_loop elimination_mask i
       (if elimination_mask ! i then remove_and_reorder i xs else xs)"

text \<open>
  The mask after the loop of \<open>create_elimination_mask_for_close_points\<close> has visited
  the candidates \<open>0, \<dots>, k - 1\<close>.
\<close>

definition mask_after_visits :: "float3 list \<Rightarrow> real \<Rightarrow> bool list \<Rightarrow> nat \<Rightarrow> bool list" where
  "mask_after_visits positions minimum_distance r_elimination_mask k =
     foldl (elimination_step (build_kdtree positions) positions minimum_distance)
       r_elimination_mask [0..<k]"

subsection \<open>An example host and mesh\<close>

text \<open>
  A concrete instance, used to evaluate the node: the generator state is a counter,
  every uniform draw is \<open>1 / 2\<close>, and the triangle helpers are those of the plane
  \<open>z = 0\<close>. The mesh is the single triangle \<open>(0, 0, 0)\<close>, \<open>(2, 0, 0)\<close>, \<open>(0, 2, 0)\<close> of
  area 2.
\<close>

definition example_host :: "nat host" where
  "example_host =
     \<lparr>BLI_hash_int = (\<lambda>w. w),
      rng_new = unat,
      get_float = (\<lambda>s. (1 / 2, Suc s)),
      get_barycentric_coordinates =
        (\<lambda>s. (float3 (1 / real (s + 2)) (1 / real (s + 2)) (1 - 2 / real (s + 2)), Suc s)),
      float3_hash = (\<lambda>b. case b of float3 b0 b1 b2 \<Rightarrow> word_of_int \<lfloor>1000 * b1\<rfloor>),
      area_tri_v3 = (\<lambda>a b c. case (a, b, c) of
         (float3 a0 a1 a2, float3 b0 b1 b2, float3 c0 c1 c2) \<Rightarrow>
           \<bar>(b0 - a0) * (c1 - a1) - (b1 - a1) * (c0 - a0)\<bar> / 2),
      normal_tri_v3 = (\<lambda>a b c. float3 0 0 1),
      interp_v3_v3v3v3 = (\<lambda>a b c w. case (a, b, c, w) of
         (float3 a0 a1 a2, float3 b0 b1 b2, float3 c0 c1 c2, float3 w0 w1 w2) \<Rightarrow>
           float3 (a0 * w0 + b0 * w1 + c0 * w2) (a1 * w0 + b1 * w1 + c1 * w2)
             (a2 * w0 + b2 * w1 + c2 * w2)),
      vec_to_quat = (\<lambda>n a b. (1, 0, 0, 0)),
      quat_to_eul = (\<lambda>q. float3 0 0 0),
      OB_NEGZ = 5,
      OB_POSY = 1\<rparr>"

definition example_mesh :: Mesh where
  "example_mesh =
     \<lparr>mloop = (\<lambda>i. \<lparr>mloop_v = i\<rparr>),
      mvert = (\<lambda>i. \<lparr>mvert_co = (if i = 1 then float3 2 0 0
                                 else if i = 2 then float3 0 2 0 else float3 0 0 0)\<rparr>),
      mpoly = Some (\<lambda>i. \<lparr>loopstart = 0, totloop = 3\<rparr>),
      runtime_looptris = [MLoopTri 0 1 2],
      point_attributes = Map.empty\<rparr>"

text \<open>
  Eight candidates on a line: the candidates 3 and 7 are \<open>1 / 100\<close> apart, any other
  two are at least \<open>99 / 100\<close> apart.
\<close>

definition example_positions :: "float3 list" where
  "example_positions =
     [float3 0 0 0, float3 1 0 0, float3 2 0 0, float3 3 0 0,
      float3 4 0 0, float3 5 0 0, float3 6 0 0, float3 (301 / 100) 0 0]"

subsection \<open>The data of one triangle\<close>

text \<open>
  Both scatter loops and \<open>compute_remaining_point_data\<close> start by reading the same
  data of the triangle \<open>looptri_index\<close>: the indices of its three vertices
  (lines 533 to 535), their positions (lines 536 to 538) and, in random mode, their
  density factors as the attribute gives them, before the clamp of lines 539 to 541.
  \<open>looptri_rng\<close> is the generator of the triangle (lines 547 and 548), \<open>stable_id\<close>
  the expression of lines 562 and 684. The properties below are stated with these
  names.
\<close>

definition looptri_vertices :: "Mesh \<Rightarrow> nat \<Rightarrow> nat \<times> nat \<times> nat" where
  "looptri_vertices mesh looptri_index =
     (let looptri = get_mesh_looptris mesh ! looptri_index
      in (mloop_v (mloop mesh (tri_0 looptri)),
          mloop_v (mloop mesh (tri_1 looptri)),
          mloop_v (mloop mesh (tri_2 looptri))))"

definition looptri_positions :: "Mesh \<Rightarrow> nat \<Rightarrow> float3 \<times> float3 \<times> float3" where
  "looptri_positions mesh looptri_index =
     (case looptri_vertices mesh looptri_index of
        (v0_index, v1_index, v2_index) \<Rightarrow>
          (mvert_co (mvert mesh v0_index), mvert_co (mvert mesh v1_index),
           mvert_co (mvert mesh v2_index)))"

definition looptri_density_factors :: "Mesh \<Rightarrow> (nat \<Rightarrow> real) \<Rightarrow> nat \<Rightarrow> real \<times> real \<times> real" where
  "looptri_density_factors mesh density_factors looptri_index =
     (case looptri_vertices mesh looptri_index of
        (v0_index, v1_index, v2_index) \<Rightarrow>
          (density_factors v0_index, density_factors v1_index, density_factors v2_index))"

definition looptri_rng :: "'r host \<Rightarrow> 32 word \<Rightarrow> nat \<Rightarrow> 'r" where
  "looptri_rng h seed looptri_index =
     rng_new h (BLI_hash_int h (word_of_nat looptri_index + seed))"

definition stable_id :: "'r host \<Rightarrow> float3 \<Rightarrow> nat \<Rightarrow> 32 word" where
  "stable_id h bary_coords looptri_index =
     ucast (float3_hash h bary_coords) + word_of_nat looptri_index"

text \<open>
  The value of \<open>point_amount\<close> (lines 551 to 553 and 595 to 597) for the float
  \<open>points_amount_fl\<close> and the uniform value \<open>u\<close> that the generator returns.
\<close>

definition point_amount :: "real \<Rightarrow> real \<Rightarrow> 32 word" where
  "point_amount points_amount_fl u =
     float_to_int points_amount_fl + (if fractf points_amount_fl > u then 1 else 0)"


text \<open>
  A mesh whose only triangle has its three vertices on one line; a mesh with the
  triangle of \<open>example_mesh\<close> under another numbering of loops and vertices, with a
  density attribute and without polygons; and a mesh whose only triangle has the
  area 45000.
\<close>

definition example_flat_mesh :: Mesh where
  "example_flat_mesh =
     \<lparr>mloop = (\<lambda>i. \<lparr>mloop_v = i\<rparr>),
      mvert = (\<lambda>i. \<lparr>mvert_co = (if i = 1 then float3 1 0 0
                                 else if i = 2 then float3 2 0 0 else float3 0 0 0)\<rparr>),
      mpoly = Some (\<lambda>i. \<lparr>loopstart = 0, totloop = 3\<rparr>),
      runtime_looptris = [MLoopTri 0 1 2],
      point_attributes = Map.empty\<rparr>"

definition example_mesh2 :: Mesh where
  "example_mesh2 =
     \<lparr>mloop = (\<lambda>i. \<lparr>mloop_v = i + 4\<rparr>),
      mvert = (\<lambda>i. \<lparr>mvert_co = (if i = 8 then float3 2 0 0
                                 else if i = 6 then float3 0 2 0 else float3 0 0 0)\<rparr>),
      mpoly = None,
      runtime_looptris = [MLoopTri 1 4 2],
      point_attributes = [''density'' \<mapsto> (\<lambda>v. if v = 5 then 1 else 1 / 2)]\<rparr>"


text \<open>
  The number of points of a geometry set: the length of the point cloud's \<open>co\<close>, and
  0 for a geometry set without a point cloud.
\<close>

definition output_point_count :: "GeometrySet \<Rightarrow> nat" where
  "output_point_count geometry_set =
     (case pointcloud_component geometry_set of
        None \<Rightarrow> 0
      | Some pointcloud \<Rightarrow> length (co pointcloud))"


text \<open>Inputs of the node on the example mesh, in minimum-distance mode.\<close>

definition example_params :: GeoNodeExecParams where
  "example_params =
     \<lparr>input_geometry = \<lparr>mesh_component = Some example_mesh, pointcloud_component = None\<rparr>,
      input_distance_min = 1 / 10,
      input_density_max = 1,
      input_density_attribute = ''density'',
      input_seed = 0,
      node_custom1 = GEO_NODE_POINT_DISTRIBUTE_POISSON\<rparr>"

section \<open>Properties\<close>

subsection \<open>The proximity index and one visit of the elimination loop\<close>

lemma len_squared_v3v3_commute: "len_squared_v3v3 a b = len_squared_v3v3 b a"
  by (cases a; cases b) (simp add: algebra_simps)

lemma len_squared_v3v3_nonneg: "0 \<le> len_squared_v3v3 a b"
  by (cases a; cases b) simp

lemma nodes_foldl_insert:
  "nodes (foldl (\<lambda>tree i. BLI_kdtree_3d_insert tree i (ps ! i)) t js) =
     nodes t @ map (\<lambda>i. (i, ps ! i)) js"
  by (induction js arbitrary: t) (simp_all add: BLI_kdtree_3d_insert_def)

lemma nodes_build_kdtree:
  "nodes (build_kdtree ps) = map (\<lambda>i. (i, ps ! i)) [0..<length ps]"
  by (simp add: build_kdtree_def BLI_kdtree_3d_balance_def BLI_kdtree_3d_new_def
      nodes_foldl_insert)

lemma range_search_nodes_Cons:
  "range_search_nodes ((j, q) # ns) c rsq elimination_callback d =
     (if len_squared_v3v3 q c \<le> rsq \<and> j \<noteq> callback_index d
      then range_search_nodes ns c rsq elimination_callback
             (d\<lparr>callback_elimination_mask := (callback_elimination_mask d)[j := True]\<rparr>)
      else range_search_nodes ns c rsq elimination_callback d)"
  by (simp add: elimination_callback_def Let_def)

lemma range_search_mask_length:
  "length (callback_elimination_mask (range_search_nodes ns c rsq elimination_callback d)) =
     length (callback_elimination_mask d)"
proof (induction ns arbitrary: d)
  case Nil
  then show ?case by simp
next
  case (Cons a ns)
  obtain j q where a: "a = (j, q)" by (cases a)
  show ?case
    unfolding a range_search_nodes_Cons by (simp add: Cons.IH)
qed

lemma range_search_mask_nth:
  "m < length (callback_elimination_mask d) \<Longrightarrow>
   callback_elimination_mask (range_search_nodes ns c rsq elimination_callback d) ! m =
     (callback_elimination_mask d ! m \<or>
      (\<exists>p. (m, p) \<in> set ns \<and> m \<noteq> callback_index d \<and> len_squared_v3v3 p c \<le> rsq))"
proof (induction ns arbitrary: d)
  case Nil
  then show ?case by simp
next
  case (Cons a ns)
  obtain j q where a: "a = (j, q)" by (cases a)
  let ?d = "d\<lparr>callback_elimination_mask := (callback_elimination_mask d)[j := True]\<rparr>"
  have ih1: "callback_elimination_mask (range_search_nodes ns c rsq elimination_callback d) ! m =
     (callback_elimination_mask d ! m \<or>
      (\<exists>p. (m, p) \<in> set ns \<and> m \<noteq> callback_index d \<and> len_squared_v3v3 p c \<le> rsq))"
    using Cons.IH [of d] Cons.prems by simp
  have ih2: "callback_elimination_mask (range_search_nodes ns c rsq elimination_callback ?d) ! m =
     ((callback_elimination_mask d)[j := True] ! m \<or>
      (\<exists>p. (m, p) \<in> set ns \<and> m \<noteq> callback_index d \<and> len_squared_v3v3 p c \<le> rsq))"
    using Cons.IH [of ?d] Cons.prems by simp
  have upd: "(callback_elimination_mask d)[j := True] ! m =
     (callback_elimination_mask d ! m \<or> m = j)"
    using Cons.prems by (cases "m = j") simp_all
  show ?case
  proof (cases "len_squared_v3v3 q c \<le> rsq \<and> j \<noteq> callback_index d")
    case True
    have "callback_elimination_mask
            (range_search_nodes (a # ns) c rsq elimination_callback d) ! m =
          callback_elimination_mask (range_search_nodes ns c rsq elimination_callback ?d) ! m"
      unfolding a range_search_nodes_Cons using True by simp
    then show ?thesis
      unfolding ih2 upd using True by (auto simp: a)
  next
    case False
    have "callback_elimination_mask
            (range_search_nodes (a # ns) c rsq elimination_callback d) ! m =
          callback_elimination_mask (range_search_nodes ns c rsq elimination_callback d) ! m"
      unfolding a range_search_nodes_Cons using False by auto
    then show ?thesis
      unfolding ih1 using False by (auto simp: a)
  qed
qed

lemma elimination_step_length:
  "length (elimination_step (build_kdtree ps) ps r em i) = length em"
  by (simp add: elimination_step_def BLI_kdtree_3d_range_search_cb_def Let_def
      range_search_mask_length)

lemma elimination_step_nth:
  assumes "m < length em" "m < length ps"
  shows "elimination_step (build_kdtree ps) ps r em i ! m =
     (em ! m \<or> (\<not> em ! i \<and> m \<noteq> i \<and> len_squared_v3v3 (ps ! m) (ps ! i) \<le> r * r))"
  using assms
  by (auto simp: elimination_step_def BLI_kdtree_3d_range_search_cb_def Let_def
      range_search_mask_nth nodes_build_kdtree)


lemma foldl_step_length:
  "length (foldl (elimination_step (build_kdtree ps) ps r) em js) = length em"
  by (induction js arbitrary: em) (simp_all add: elimination_step_length)

lemma prefix_mask_Suc:
  "foldl f em [0..<Suc k] = f (foldl f em [0..<k]) k"
  by simp

text \<open>Once set, a flag stays set.\<close>

lemma foldl_step_mono:
  "m < length em \<Longrightarrow> m < length ps \<Longrightarrow> em ! m \<Longrightarrow>
   foldl (elimination_step (build_kdtree ps) ps r) em js ! m"
  by (induction js arbitrary: em) (simp_all add: elimination_step_length elimination_step_nth)

text \<open>
  After the candidates below \<open>k\<close> have been visited, every candidate below \<open>k\<close> whose
  flag is clear has all its neighbours flagged.
\<close>

lemma prefix_mask_neighbours:
  assumes "length em = length ps" "k \<le> length ps"
    and "i < k" "m < length ps" "m \<noteq> i"
    and "len_squared_v3v3 (ps ! m) (ps ! i) \<le> r * r"
    and "\<not> foldl (elimination_step (build_kdtree ps) ps r) em [0..<k] ! i"
  shows "foldl (elimination_step (build_kdtree ps) ps r) em [0..<k] ! m"
  using assms(2,3,7)
proof (induction k)
  case 0
  then show ?case by simp
next
  case (Suc k)
  let ?M = "foldl (elimination_step (build_kdtree ps) ps r) em [0..<k]"
  have len: "length ?M = length ps"
    by (simp add: foldl_step_length assms(1))
  have i: "i < length ps" using Suc.prems by simp
  from Suc.prems(3) have clear: "\<not> ?M ! i"
    using i len by (auto simp: elimination_step_nth)
  show ?case
  proof (cases "i = k")
    case True
    with clear assms(4,5,6) len show ?thesis
      by (simp add: elimination_step_nth)
  next
    case False
    with Suc.prems have "i < k" by simp
    with Suc.IH clear Suc.prems(1) have "?M ! m" by simp
    with assms(4) len show ?thesis
      by (simp add: elimination_step_nth)
  qed
qed

text \<open>The visit of a candidate leaves the flags of the candidates below it as they are.\<close>

lemma step_keeps_lower:
  assumes "length em = length ps" "j < length ps" "i < j"
  shows "foldl (elimination_step (build_kdtree ps) ps r) em [0..<Suc j] ! i =
         foldl (elimination_step (build_kdtree ps) ps r) em [0..<j] ! i"
proof -
  let ?M = "foldl (elimination_step (build_kdtree ps) ps r) em [0..<j]"
  have len: "length ?M = length ps"
    by (simp add: foldl_step_length assms(1))
  have i: "i < length ps" using assms by simp
  have "?M ! i" if "\<not> ?M ! j" "len_squared_v3v3 (ps ! i) (ps ! j) \<le> r * r"
  proof (rule ccontr)
    assume "\<not> ?M ! i"
    then have "?M ! j"
      using prefix_mask_neighbours [of em ps j i j r] assms that
      by (simp add: len_squared_v3v3_commute)
    with that show False by simp
  qed
  then show ?thesis
    using i len by (auto simp: elimination_step_nth)
qed

subsection \<open>The elimination mask\<close>

lemma create_elimination_mask_visits:
  "create_elimination_mask_for_close_points ps r em = mask_after_visits ps r em (length ps)"
  by (simp add: create_elimination_mask_for_close_points_def mask_after_visits_def)

lemma mask_after_visits_length: "length (mask_after_visits ps r em k) = length em"
  by (simp add: mask_after_visits_def foldl_step_length)

lemma mask_after_visits_Suc:
  "mask_after_visits ps r em (Suc k) =
     elimination_step (build_kdtree ps) ps r (mask_after_visits ps r em k) k"
  by (simp add: mask_after_visits_def)

lemma mask_after_visits_own_flag:
  assumes "length em = length ps" "i < length ps"
  shows "mask_after_visits ps r em (Suc i) ! i = mask_after_visits ps r em i ! i"
  using assms by (simp add: mask_after_visits_Suc elimination_step_nth mask_after_visits_length)

lemma mask_after_visits_settled:
  assumes "length em = length ps" "i \<le> k" "k \<le> length ps"
  shows "mask_after_visits ps r em k ! i = mask_after_visits ps r em i ! i"
  using assms(2,3)
proof (induction k)
  case 0
  then show ?case by simp
next
  case (Suc k)
  show ?case
  proof (cases "i = Suc k")
    case True
    then show ?thesis by simp
  next
    case False
    with Suc.prems have ik: "i \<le> k" and k: "k < length ps" by simp_all
    show ?thesis
    proof (cases "i = k")
      case True
      with k assms(1) show ?thesis
        by (simp add: mask_after_visits_own_flag)
    next
      case False
      with ik have "i < k" by simp
      with step_keeps_lower [of em ps k i r] assms(1) k Suc.IH ik show ?thesis
        by (simp add: mask_after_visits_def)
    qed
  qed
qed

text \<open>From a clear mask, a flag is only ever set by a visited neighbour.\<close>

lemma mask_after_visits_source:
  assumes "m < length ps" "k \<le> length ps"
    and "mask_after_visits ps r (replicate (length ps) False) k ! m"
  shows "\<exists>i<k. i \<noteq> m \<and> len_squared_v3v3 (ps ! m) (ps ! i) \<le> r * r"
  using assms(2,3)
proof (induction k)
  case 0
  with assms(1) show ?case by (simp add: mask_after_visits_def)
next
  case (Suc k)
  let ?M = "mask_after_visits ps r (replicate (length ps) False) k"
  have len: "length ?M = length ps" by (simp add: mask_after_visits_length)
  from Suc.prems(2) have "?M ! m \<or> (m \<noteq> k \<and> len_squared_v3v3 (ps ! m) (ps ! k) \<le> r * r)"
    using assms(1) len by (auto simp: mask_after_visits_Suc elimination_step_nth)
  then show ?case
  proof
    assume "?M ! m"
    with Suc.IH Suc.prems(1) obtain i where "i < k" "i \<noteq> m"
      "len_squared_v3v3 (ps ! m) (ps ! i) \<le> r * r" by auto
    then show ?thesis by (intro exI [of _ i]) simp
  next
    assume "m \<noteq> k \<and> len_squared_v3v3 (ps ! m) (ps ! k) \<le> r * r"
    then show ?thesis by (intro exI [of _ k]) auto
  qed
qed

lemma len_v3v3_less_iff:
  "0 < d \<Longrightarrow> len_v3v3 a b < d \<longleftrightarrow> len_squared_v3v3 a b < d * d"
proof -
  assume d: "0 < d"
  have "sqrt (len_squared_v3v3 a b) < sqrt (d * d) \<longleftrightarrow> len_squared_v3v3 a b < d * d"
    by (rule real_sqrt_less_iff)
  with d show ?thesis by (simp add: len_v3v3_def)
qed

lemma len_v3v3_nonneg: "0 \<le> len_v3v3 a b"
  by (simp add: len_v3v3_def len_squared_v3v3_nonneg)

lemma len_v3v3_commute: "len_v3v3 a b = len_v3v3 b a"
  by (simp add: len_v3v3_def len_squared_v3v3_commute)

lemma less_len_v3v3_iff:
  "0 \<le> d \<Longrightarrow> d < len_v3v3 a b \<longleftrightarrow> d * d < len_squared_v3v3 a b"
proof -
  assume d: "0 \<le> d"
  have "sqrt (d * d) < sqrt (len_squared_v3v3 a b) \<longleftrightarrow> d * d < len_squared_v3v3 a b"
    by (rule real_sqrt_less_iff)
  with d show ?thesis by (simp add: len_v3v3_def)
qed

text \<open>Two candidates whose flags are both clear at the end are out of range of each other.\<close>

lemma clear_flags_far_apart:
  assumes "length em = length ps" "a < length ps" "b < length ps" "a \<noteq> b"
    and "\<not> create_elimination_mask_for_close_points ps r em ! a"
    and "\<not> create_elimination_mask_for_close_points ps r em ! b"
  shows "r * r < len_squared_v3v3 (ps ! a) (ps ! b)"
proof (rule ccontr)
  assume "\<not> r * r < len_squared_v3v3 (ps ! a) (ps ! b)"
  then have close: "len_squared_v3v3 (ps ! a) (ps ! b) \<le> r * r" by simp
  then have close': "len_squared_v3v3 (ps ! b) (ps ! a) \<le> r * r"
    by (simp add: len_squared_v3v3_commute)
  have "create_elimination_mask_for_close_points ps r em ! a"
    using prefix_mask_neighbours [of em ps "length ps" b a r] assms close
    by (simp add: create_elimination_mask_for_close_points_def)
  with assms(5) show False by simp
qed

lemma clear_flags_min_distance:
  assumes "length em = length ps" "a < length ps" "b < length ps" "a \<noteq> b"
    and "\<not> create_elimination_mask_for_close_points ps r em ! a"
    and "\<not> create_elimination_mask_for_close_points ps r em ! b"
  shows "r \<le> len_v3v3 (ps ! a) (ps ! b)"
proof (cases "0 \<le> r")
  case True
  with clear_flags_far_apart [OF assms] show ?thesis
    by (simp add: less_len_v3v3_iff less_imp_le)
next
  case False
  with len_v3v3_nonneg [of "ps ! a" "ps ! b"] show ?thesis by simp
qed

subsection \<open>Compaction\<close>

lemma remove_and_reorder_map:
  "remove_and_reorder i (map f xs) = map f (remove_and_reorder i xs)"
proof (cases "xs = []")
  case True
  then show ?thesis by (simp add: remove_and_reorder_def)
next
  case False
  then show ?thesis
    by (simp add: remove_and_reorder_def map_butlast map_update last_map)
qed

lemma compact_loop_map:
  "compact_loop em k (map f xs) = map f (compact_loop em k xs)"
  by (induction k arbitrary: xs) (simp_all add: remove_and_reorder_map)

lemma eliminate_loop_compact:
  "eliminate_loop em k (ps, bs, ls) =
     (compact_loop em k ps, compact_loop em k bs, compact_loop em k ls)"
  by (induction k arbitrary: ps bs ls) simp_all

lemma remove_and_reorder_append:
  "remove_and_reorder (length pre) (pre @ x # suf) =
     pre @ (if suf = [] then [] else last suf # butlast suf)"
  by (simp add: remove_and_reorder_def butlast_append list_update_append)

lemma compact_loop_indices:
  assumes "distinct suf" "set suf = {i. k \<le> i \<and> i < n \<and> \<not> em ! i}" "k \<le> n"
  shows "distinct (compact_loop em k ([0..<k] @ suf)) \<and>
         set (compact_loop em k ([0..<k] @ suf)) = {i. i < n \<and> \<not> em ! i}"
  using assms
proof (induction k arbitrary: suf)
  case 0
  then show ?case by simp
next
  case (Suc k)
  show ?case
  proof (cases "em ! k")
    case True
    let ?suf = "if suf = [] then [] else last suf # butlast suf"
    have step: "compact_loop em (Suc k) ([0..<Suc k] @ suf) = compact_loop em k ([0..<k] @ ?suf)"
      using True remove_and_reorder_append [of "[0..<k]" k suf] by simp
    have set_eq: "set ?suf = set suf"
      by (cases suf rule: rev_cases) auto
    have dist: "distinct ?suf"
      using Suc.prems(1) by (cases suf rule: rev_cases) auto
    have "i = k \<or> Suc k \<le> i" if "k \<le> i" for i
      using that by arith
    with True have "set ?suf = {i. k \<le> i \<and> i < n \<and> \<not> em ! i}"
      unfolding set_eq Suc.prems(2) by fastforce
    with Suc.IH [of ?suf] dist Suc.prems(3) show ?thesis
      unfolding step by simp
  next
    case False
    have step: "compact_loop em (Suc k) ([0..<Suc k] @ suf) = compact_loop em k ([0..<k] @ k # suf)"
      using False by simp
    have "i = k \<or> Suc k \<le> i" if "k \<le> i" for i
      using that by arith
    with False Suc.prems(3) have "set (k # suf) = {i. k \<le> i \<and> i < n \<and> \<not> em ! i}"
      unfolding list.set Suc.prems(2) by fastforce
    moreover have "distinct (k # suf)"
      using Suc.prems by auto
    ultimately show ?thesis
      using Suc.IH [of "k # suf"] Suc.prems(3) unfolding step by simp
  qed
qed

lemma compact_loop_range:
  "distinct (compact_loop em n [0..<n]) \<and>
   set (compact_loop em n [0..<n]) = {i. i < n \<and> \<not> em ! i}"
  using compact_loop_indices [of "[]" n n em] by simp

lemma compact_loop_nth:
  "compact_loop em (length xs) xs =
     map ((!) xs) (compact_loop em (length xs) [0..<length xs])"
  using compact_loop_map [of em "length xs" "(!) xs" "[0..<length xs]"]
  by (simp add: map_nth)

lemma eliminate_points_compact:
  "eliminate_points_based_on_mask em ps bs ls =
     (compact_loop em (length ps) ps, compact_loop em (length ps) bs,
      compact_loop em (length ps) ls)"
  by (simp add: eliminate_points_based_on_mask_def eliminate_loop_compact)

lemma compacted_positions_min_distance:
  assumes "a < length (compact_loop em (length ps) ps)"
    and "b < length (compact_loop em (length ps) ps)" and "a \<noteq> b"
    and em: "em = create_elimination_mask_for_close_points ps r (replicate (length ps) False)"
  shows "r \<le> len_v3v3 (compact_loop em (length ps) ps ! a) (compact_loop em (length ps) ps ! b)"
proof -
  let ?idx = "compact_loop em (length ps) [0..<length ps]"
  have ps': "compact_loop em (length ps) ps = map ((!) ps) ?idx"
    by (rule compact_loop_nth)
  have dist: "distinct ?idx" and set: "set ?idx = {i. i < length ps \<and> \<not> em ! i}"
    using compact_loop_range [of em "length ps"] by simp_all
  from assms(1,2) have a: "a < length ?idx" and b: "b < length ?idx"
    by (simp_all add: ps')
  from a b set have ia: "?idx ! a < length ps" "\<not> em ! (?idx ! a)"
    and ib: "?idx ! b < length ps" "\<not> em ! (?idx ! b)"
    using nth_mem [of a ?idx] nth_mem [of b ?idx] by auto
  from dist a b \<open>a \<noteq> b\<close> have ne: "?idx ! a \<noteq> ?idx ! b"
    by (simp add: nth_eq_iff_index_eq)
  have "r \<le> len_v3v3 (ps ! (?idx ! a)) (ps ! (?idx ! b))"
    using clear_flags_min_distance [of "replicate (length ps) False" ps "?idx ! a" "?idx ! b" r]
      ia ib ne by (simp add: em)
  then show ?thesis
    using a b by (simp add: ps')
qed

lemma stable_scatter_points:
  "fst (stable_random_scatter_with_minimum_distance h mesh max_density r df rn ri seed) =
     (let ps = fst (initial_uniform_distribution h mesh max_density seed [] [] [])
      in compact_loop (create_elimination_mask_for_close_points ps r
                         (replicate (length ps) False)) (length ps) ps)"
  by (simp add: stable_random_scatter_with_minimum_distance_def eliminate_points_compact
      Let_def split: prod.splits)

text \<open>
  Claim C1. In minimum-distance (Poisson) mode, after the elimination pass and the
  compaction, any two distinct points that are returned are at least
  \<open>minimum_distance\<close> apart. The points are those that
  \<open>stable_random_scatter_with_minimum_distance\<close> returns, for every host, mesh,
  density and seed.
\<close>

theorem poisson_survivors_min_distance:
  assumes "stable_random_scatter_with_minimum_distance h mesh max_density minimum_distance
             density_factors r_normals r_ids seed = (points, normals, ids)"
    and "a < length points" and "b < length points" and "a \<noteq> b"
  shows "minimum_distance \<le> len_v3v3 (points ! a) (points ! b)"
proof -
  let ?ps = "fst (initial_uniform_distribution h mesh max_density seed [] [] [])"
  let ?em = "create_elimination_mask_for_close_points ?ps minimum_distance
               (replicate (length ?ps) False)"
  have "points = compact_loop ?em (length ?ps) ?ps"
    using stable_scatter_points [of h mesh max_density minimum_distance density_factors
        r_normals r_ids seed] assms(1)
    by (simp add: Let_def)
  with compacted_positions_min_distance [of a ?em ?ps b minimum_distance] assms(2,3,4)
  show ?thesis by simp
qed

theorem poisson_survivors_min_distance_witness:
  "stable_random_scatter_with_minimum_distance example_host example_mesh 1 (1 / 10)
       (\<lambda>_. 1) [] [] 0 =
     ([float3 (2 / 3) (2 / 3) 0, float3 (1 / 2) 1 0], [float3 0 0 1, float3 0 0 1], [333, 250]) \<and>
   (0::nat) < length [float3 (2 / 3) (2 / 3) 0, float3 (1 / 2) 1 0] \<and>
   (1::nat) < length [float3 (2 / 3) (2 / 3) 0, float3 (1 / 2) 1 0] \<and>
   (0::nat) \<noteq> 1 \<and>
   1 / 10 \<le> len_v3v3 (float3 (2 / 3) (2 / 3) 0) (float3 (1 / 2) 1 0)"
proof -
  have run: "stable_random_scatter_with_minimum_distance example_host example_mesh 1 (1 / 10)
       (\<lambda>_. 1) [] [] 0 =
     ([float3 (2 / 3) (2 / 3) 0, float3 (1 / 2) 1 0], [float3 0 0 1, float3 0 0 1], [333, 250])"
    by code_simp
  from poisson_survivors_min_distance [OF run, of 0 1] run show ?thesis
    by simp
qed

text \<open>
  Claim C5. Compaction keeps the three parallel arrays aligned. For arrays and a mask
  of one length, there is a list \<open>idx\<close> of original indices, without repetition
  and consisting of exactly the indices whose flag is clear, such that each of the
  three arrays after \<open>eliminate_points_based_on_mask\<close> is the original array read
  at \<open>idx\<close>: entry \<open>k\<close> of all three arrays describes the candidate \<open>idx ! k\<close>,
  every candidate with a clear flag appears exactly once, and every flagged
  candidate is gone.
\<close>

theorem compaction_keeps_arrays_aligned:
  assumes "length bary_coords = length positions"
    and "length looptri_indices = length positions"
    and "length elimination_mask = length positions"
    and "eliminate_points_based_on_mask elimination_mask positions bary_coords
           looptri_indices = (positions', bary_coords', looptri_indices')"
  shows "\<exists>idx. distinct idx \<and>
           set idx = {i. i < length positions \<and> \<not> elimination_mask ! i} \<and>
           positions' = map ((!) positions) idx \<and>
           bary_coords' = map ((!) bary_coords) idx \<and>
           looptri_indices' = map ((!) looptri_indices) idx"
proof -
  let ?n = "length positions"
  let ?idx = "compact_loop elimination_mask ?n [0..<?n]"
  have "distinct ?idx" and "set ?idx = {i. i < ?n \<and> \<not> elimination_mask ! i}"
    using compact_loop_range [of elimination_mask ?n] by simp_all
  moreover have "positions' = map ((!) positions) ?idx"
    using assms(4) compact_loop_nth [of elimination_mask positions]
    by (simp add: eliminate_points_compact)
  moreover have "bary_coords' = map ((!) bary_coords) ?idx"
    using assms(1,4) compact_loop_nth [of elimination_mask bary_coords]
    by (simp add: eliminate_points_compact)
  moreover have "looptri_indices' = map ((!) looptri_indices) ?idx"
    using assms(2,4) compact_loop_nth [of elimination_mask looptri_indices]
    by (simp add: eliminate_points_compact)
  ultimately show ?thesis by blast
qed

theorem compaction_keeps_arrays_aligned_witness:
  "length [float3 1 0 0, float3 0 1 0, float3 0 0 1, float3 (1 / 2) (1 / 2) 0] =
     length [float3 0 0 0, float3 1 1 1, float3 2 2 2, float3 3 3 3] \<and>
   length [7, 7, 8, 9 :: nat] = length [float3 0 0 0, float3 1 1 1, float3 2 2 2, float3 3 3 3] \<and>
   length [True, False, False, True] =
     length [float3 0 0 0, float3 1 1 1, float3 2 2 2, float3 3 3 3] \<and>
   eliminate_points_based_on_mask [True, False, False, True]
       [float3 0 0 0, float3 1 1 1, float3 2 2 2, float3 3 3 3]
       [float3 1 0 0, float3 0 1 0, float3 0 0 1, float3 (1 / 2) (1 / 2) 0]
       [7, 7, 8, 9] =
     ([float3 2 2 2, float3 1 1 1], [float3 0 0 1, float3 0 1 0], [8, 7]) \<and>
   (\<exists>idx. distinct idx \<and>
      set idx = {i. i < length [float3 0 0 0, float3 1 1 1, float3 2 2 2, float3 3 3 3] \<and>
                    \<not> [True, False, False, True] ! i} \<and>
      [float3 2 2 2, float3 1 1 1] =
        map ((!) [float3 0 0 0, float3 1 1 1, float3 2 2 2, float3 3 3 3]) idx \<and>
      [float3 0 0 1, float3 0 1 0] =
        map ((!) [float3 1 0 0, float3 0 1 0, float3 0 0 1, float3 (1 / 2) (1 / 2) 0]) idx \<and>
      [8, 7] = map ((!) [7, 7, 8, 9 :: nat]) idx)"
proof -
  have run: "eliminate_points_based_on_mask [True, False, False, True]
       [float3 0 0 0, float3 1 1 1, float3 2 2 2, float3 3 3 3]
       [float3 1 0 0, float3 0 1 0, float3 0 0 1, float3 (1 / 2) (1 / 2) 0]
       [7, 7, 8, 9] =
     ([float3 2 2 2, float3 1 1 1], [float3 0 0 1, float3 0 1 0], [8, 7])"
    by code_simp
  have l1: "length [float3 1 0 0, float3 0 1 0, float3 0 0 1, float3 (1 / 2) (1 / 2) 0] =
     length [float3 0 0 0, float3 1 1 1, float3 2 2 2, float3 3 3 3]" by simp
  have l2: "length [7, 7, 8, 9 :: nat] =
     length [float3 0 0 0, float3 1 1 1, float3 2 2 2, float3 3 3 3]" by simp
  have l3: "length [True, False, False, True] =
     length [float3 0 0 0, float3 1 1 1, float3 2 2 2, float3 3 3 3]" by simp
  from compaction_keeps_arrays_aligned [OF l1 l2 l3 run] run l1 l2 l3 show ?thesis
    by blast
qed

subsection \<open>The order of the elimination\<close>

lemma all_less_3: "(\<forall>k<(3::nat). P k) \<longleftrightarrow> P 0 \<and> P 1 \<and> P 2"
  by (auto simp: numeral_3_eq_3 numeral_2_eq_2 less_Suc_eq)

text \<open>
  Claim C2. Let the candidates \<open>i < j\<close> lie strictly within \<open>minimum_distance\<close> of
  each other, and start from the clear mask. Then the candidate with the lower index
  is never eliminated by the one with the higher index: the visit of \<open>j\<close> leaves the
  flag of \<open>i\<close> as it was. The candidates are visited in increasing order; a candidate
  that is already eliminated at its visit is skipped and changes nothing; a
  candidate that is not eliminated at its visit flags \<open>j\<close>. So the lower index wins:
  if \<open>i\<close> is retained at the end then \<open>j\<close> is eliminated, and if no candidate below
  \<open>i\<close> is within the distance of \<open>i\<close> (as for exactly two mutually close candidates)
  then \<open>i\<close> is retained and \<open>j\<close> is eliminated.
\<close>

theorem lower_index_wins:
  assumes "i < j" and "j < length positions"
    and "len_v3v3 (positions ! i) (positions ! j) < minimum_distance"
  shows "mask_after_visits positions minimum_distance
           (replicate (length positions) False) (Suc j) ! i =
         mask_after_visits positions minimum_distance
           (replicate (length positions) False) j ! i \<and>
         (mask_after_visits positions minimum_distance
           (replicate (length positions) False) j ! j \<longrightarrow>
         mask_after_visits positions minimum_distance
           (replicate (length positions) False) (Suc j) =
         mask_after_visits positions minimum_distance
           (replicate (length positions) False) j) \<and>
         (\<not> mask_after_visits positions minimum_distance
             (replicate (length positions) False) i ! i \<longrightarrow>
         mask_after_visits positions minimum_distance
           (replicate (length positions) False) (Suc i) ! j) \<and>
         (\<not> create_elimination_mask_for_close_points positions minimum_distance
             (replicate (length positions) False) ! i \<longrightarrow>
         create_elimination_mask_for_close_points positions minimum_distance
           (replicate (length positions) False) ! j) \<and>
         ((\<forall>k<i. minimum_distance < len_v3v3 (positions ! k) (positions ! i)) \<longrightarrow>
         \<not> create_elimination_mask_for_close_points positions minimum_distance
             (replicate (length positions) False) ! i \<and>
         create_elimination_mask_for_close_points positions minimum_distance
           (replicate (length positions) False) ! j)"
proof -
  let ?clear = "replicate (length positions) False"
  let ?after = "mask_after_visits positions minimum_distance ?clear"
  let ?final = "create_elimination_mask_for_close_points positions minimum_distance ?clear"
  have i: "i < length positions" using assms(1,2) by simp
  have d: "0 < minimum_distance"
    using assms(3) len_v3v3_nonneg [of "positions ! i" "positions ! j"] by simp
  have close: "len_squared_v3v3 (positions ! j) (positions ! i)
                 \<le> minimum_distance * minimum_distance"
    using assms(3) d
    by (simp add: len_v3v3_less_iff len_squared_v3v3_commute less_imp_le)
  have len: "length (?after k) = length positions" for k
    by (simp add: mask_after_visits_length)
  have p1: "?after (Suc j) ! i = ?after j ! i"
    using step_keeps_lower [of ?clear positions j i minimum_distance] assms(1,2)
    by (simp add: mask_after_visits_def)
  have p2: "?after j ! j \<longrightarrow> ?after (Suc j) = ?after j"
    by (simp add: mask_after_visits_Suc elimination_step_def)
  have p3: "\<not> ?after i ! i \<longrightarrow> ?after (Suc i) ! j"
    using assms(1,2) close len [of i]
    by (simp add: mask_after_visits_Suc elimination_step_nth)
  have wins: "?final ! j" if "\<not> ?final ! i"
    using prefix_mask_neighbours [of ?clear positions "length positions" i j minimum_distance]
      that i assms(1,2) close
    by (simp add: create_elimination_mask_for_close_points_def)
  then have p4: "\<not> ?final ! i \<longrightarrow> ?final ! j" by simp
  have p5: "(\<forall>k<i. minimum_distance < len_v3v3 (positions ! k) (positions ! i)) \<longrightarrow>
         \<not> ?final ! i \<and> ?final ! j"
  proof
    assume far: "\<forall>k<i. minimum_distance < len_v3v3 (positions ! k) (positions ! i)"
    have "\<not> ?final ! i"
    proof
      assume "?final ! i"
      then have "?after i ! i"
        using mask_after_visits_settled [of ?clear positions i "length positions"
            minimum_distance] i
        by (simp add: create_elimination_mask_visits)
      then obtain k where k: "k < i"
        and "len_squared_v3v3 (positions ! i) (positions ! k)
               \<le> minimum_distance * minimum_distance"
        using mask_after_visits_source [of i positions i minimum_distance] i by auto
      then have "\<not> minimum_distance < len_v3v3 (positions ! k) (positions ! i)"
        using d by (simp add: less_len_v3v3_iff len_squared_v3v3_commute)
      with far k show False by simp
    qed
    with wins show "\<not> ?final ! i \<and> ?final ! j" by simp
  qed
  from p1 p2 p3 p4 p5 show ?thesis by blast
qed

theorem lower_index_wins_witness:
  "(3::nat) < 7 \<and> 7 < length example_positions \<and>
   len_v3v3 (example_positions ! 3) (example_positions ! 7) < 1 / 2 \<and>
   1 / 2 < len_v3v3 (example_positions ! 0) (example_positions ! 3) \<and>
   1 / 2 < len_v3v3 (example_positions ! 1) (example_positions ! 3) \<and>
   1 / 2 < len_v3v3 (example_positions ! 2) (example_positions ! 3) \<and>
   \<not> create_elimination_mask_for_close_points example_positions (1 / 2)
       (replicate (length example_positions) False) ! 3 \<and>
   create_elimination_mask_for_close_points example_positions (1 / 2)
     (replicate (length example_positions) False) ! 7"
proof -
  have h1: "(3::nat) < 7" by simp
  have h2: "7 < length example_positions" by (simp add: example_positions_def)
  have h3: "len_v3v3 (example_positions ! 3) (example_positions ! 7) < 1 / 2"
    by (rule iffD2 [OF len_v3v3_less_iff]) (simp_all add: example_positions_def)
  have h4: "\<forall>k<3. 1 / 2 < len_v3v3 (example_positions ! k) (example_positions ! 3)"
    unfolding all_less_3
    by (intro conjI; rule iffD2 [OF less_len_v3v3_iff]; simp add: example_positions_def)
  from h4 have h5:
    "1 / 2 < len_v3v3 (example_positions ! 0) (example_positions ! 3) \<and>
     1 / 2 < len_v3v3 (example_positions ! 1) (example_positions ! 3) \<and>
     1 / 2 < len_v3v3 (example_positions ! 2) (example_positions ! 3)"
    unfolding all_less_3 .
  from lower_index_wins [OF h1 h2 h3] h4 h5 h1 h2 h3 show ?thesis
    by blast
qed

subsection \<open>The scatter loops\<close>

lemma initial_uniform_emit_append:
  "initial_uniform_emit h n i v0 v1 v2 rng (ps, bs, ls) =
     (case initial_uniform_emit h n i v0 v1 v2 rng ([], [], []) of
        (ps1, bs1, ls1) \<Rightarrow> (ps @ ps1, bs @ bs1, ls @ ls1))"
proof (induction n arbitrary: rng ps bs ls)
  case 0
  then show ?case by simp
next
  case (Suc n)
  obtain b rng' where draw: "get_barycentric_coordinates h rng = (b, rng')"
    by (cases "get_barycentric_coordinates h rng")
  show ?case
    using Suc.IH [of rng' "ps @ [interp_v3_v3v3v3 h v0 v1 v2 b]" "bs @ [b]" "ls @ [i]"]
      Suc.IH [of rng' "[interp_v3_v3v3v3 h v0 v1 v2 b]" "[b]" "[i]"]
    by (simp add: draw Let_def split: prod.splits)
qed

lemma initial_uniform_emit_length:
  "initial_uniform_emit h n i v0 v1 v2 rng ([], [], []) = (ps, bs, ls) \<Longrightarrow>
   length ps = n \<and> length bs = n \<and> ls = replicate n i"
proof (induction n arbitrary: rng ps bs ls)
  case 0
  then show ?case by simp
next
  case (Suc n)
  obtain b rng' where draw: "get_barycentric_coordinates h rng = (b, rng')"
    by (cases "get_barycentric_coordinates h rng")
  obtain ps1 bs1 ls1 where rest:
    "initial_uniform_emit h n i v0 v1 v2 rng' ([], [], []) = (ps1, bs1, ls1)"
    by (cases "initial_uniform_emit h n i v0 v1 v2 rng' ([], [], [])")
  from Suc.prems have "(ps, bs, ls) =
      ([interp_v3_v3v3v3 h v0 v1 v2 b] @ ps1, [b] @ bs1, [i] @ ls1)"
    using initial_uniform_emit_append
      [of h n i v0 v1 v2 rng' "[interp_v3_v3v3v3 h v0 v1 v2 b]" "[b]" "[i]"]
    by (simp add: draw rest Let_def)
  with Suc.IH [OF rest] show ?case by simp
qed

lemma random_scatter_emit_uniform:
  "random_scatter_emit h n i v0 v1 v2 rng (points, normals, ids) =
     (case initial_uniform_emit h n i v0 v1 v2 rng ([], [], []) of
        (ps, bs, ls) \<Rightarrow>
          (points @ ps,
           normals @ map (\<lambda>l. normal_tri_v3 h v0 v1 v2) ls,
           ids @ map2 (stable_id h) bs ls))"
proof (induction n arbitrary: rng points normals ids)
  case 0
  then show ?case by simp
next
  case (Suc n)
  obtain b rng' where draw: "get_barycentric_coordinates h rng = (b, rng')"
    by (cases "get_barycentric_coordinates h rng")
  obtain ps1 bs1 ls1 where rest:
    "initial_uniform_emit h n i v0 v1 v2 rng' ([], [], []) = (ps1, bs1, ls1)"
    by (cases "initial_uniform_emit h n i v0 v1 v2 rng' ([], [], [])")
  have first: "initial_uniform_emit h (Suc n) i v0 v1 v2 rng ([], [], []) =
      (interp_v3_v3v3v3 h v0 v1 v2 b # ps1, b # bs1, i # ls1)"
    using initial_uniform_emit_append
      [of h n i v0 v1 v2 rng' "[interp_v3_v3v3v3 h v0 v1 v2 b]" "[b]" "[i]"]
    by (simp add: draw rest Let_def)
  show ?case
    unfolding first
    using Suc.IH [of rng' "points @ [interp_v3_v3v3v3 h v0 v1 v2 b]"
        "normals @ [normal_tri_v3 h v0 v1 v2]" "ids @ [stable_id h b i]"]
    by (simp add: draw rest Let_def stable_id_def)
qed


lemma initial_uniform_looptri_unfold:
  assumes "looptri_positions mesh i = (v0, v1, v2)"
    and "get_float h (looptri_rng h seed i) = (u, rng')"
  shows "initial_uniform_looptri h mesh density seed i st =
     initial_uniform_emit h
       (nat (sint (point_amount (area_tri_v3 h v0 v1 v2 * density) u)))
       i v0 v1 v2 rng' st"
  using assms
  by (simp add: initial_uniform_looptri_def looptri_positions_def looptri_vertices_def
      looptri_rng_def point_amount_def Let_def)

lemma random_scatter_looptri_unfold:
  assumes "looptri_positions mesh i = (v0, v1, v2)"
    and "looptri_density_factors mesh density_factors i = (f0, f1, f2)"
    and "get_float h (looptri_rng h seed i) = (u, rng')"
  shows "random_scatter_looptri h mesh density density_factors seed i st =
     random_scatter_emit h
       (nat (sint (point_amount
          (area_tri_v3 h v0 v1 v2 * density * ((max 0 f0 + max 0 f1 + max 0 f2) / 3)) u)))
       i v0 v1 v2 rng' st"
  using assms
  by (simp add: random_scatter_looptri_def looptri_positions_def looptri_vertices_def
      looptri_density_factors_def looptri_rng_def point_amount_def Let_def)

lemma initial_uniform_looptri_append:
  "initial_uniform_looptri h mesh density seed i (ps, bs, ls) =
     (case initial_uniform_looptri h mesh density seed i ([], [], []) of
        (ps1, bs1, ls1) \<Rightarrow> (ps @ ps1, bs @ bs1, ls @ ls1))"
proof -
  obtain v0 v1 v2 where pos: "looptri_positions mesh i = (v0, v1, v2)"
    by (cases "looptri_positions mesh i")
  obtain u rng' where draw: "get_float h (looptri_rng h seed i) = (u, rng')"
    by (cases "get_float h (looptri_rng h seed i)")
  show ?thesis
    unfolding initial_uniform_looptri_unfold [OF pos draw]
    by (rule initial_uniform_emit_append)
qed

lemma random_scatter_emit_append:
  "random_scatter_emit h n i v0 v1 v2 rng (points, normals, ids) =
     (case random_scatter_emit h n i v0 v1 v2 rng ([], [], []) of
        (ps1, ns1, is1) \<Rightarrow> (points @ ps1, normals @ ns1, ids @ is1))"
  by (simp add: random_scatter_emit_uniform split: prod.splits)

lemma random_scatter_looptri_append:
  "random_scatter_looptri h mesh density density_factors seed i (points, normals, ids) =
     (case random_scatter_looptri h mesh density density_factors seed i ([], [], []) of
        (ps1, ns1, is1) \<Rightarrow> (points @ ps1, normals @ ns1, ids @ is1))"
proof -
  obtain v0 v1 v2 where pos: "looptri_positions mesh i = (v0, v1, v2)"
    by (cases "looptri_positions mesh i")
  obtain f0 f1 f2 where fac: "looptri_density_factors mesh density_factors i = (f0, f1, f2)"
    by (cases "looptri_density_factors mesh density_factors i")
  obtain u rng' where draw: "get_float h (looptri_rng h seed i) = (u, rng')"
    by (cases "get_float h (looptri_rng h seed i)")
  show ?thesis
    unfolding random_scatter_looptri_unfold [OF pos fac draw]
    by (rule random_scatter_emit_append)
qed

lemma foldl_chunks:
  assumes "\<And>i ps bs ls. body i (ps, bs, ls) =
             (case body i ([], [], []) of (p, b, l) \<Rightarrow> (ps @ p, bs @ b, ls @ l))"
  shows "foldl (\<lambda>st i. body i st) (ps, bs, ls) js =
     (ps @ concat (map (\<lambda>i. fst (body i ([], [], []))) js),
      bs @ concat (map (\<lambda>i. fst (snd (body i ([], [], [])))) js),
      ls @ concat (map (\<lambda>i. snd (snd (body i ([], [], [])))) js))"
proof (induction js arbitrary: ps bs ls)
  case Nil
  then show ?case by simp
next
  case (Cons j js)
  obtain p b l where chunk: "body j ([], [], []) = (p, b, l)"
    by (cases "body j ([], [], [])")
  have "body j (ps, bs, ls) = (ps @ p, bs @ b, ls @ l)"
    using assms [of j ps bs ls] by (simp add: chunk)
  then show ?case
    using Cons.IH [of "ps @ p" "bs @ b" "ls @ l"] by (simp add: chunk)
qed


lemma point_amount_zero: "0 \<le> u \<Longrightarrow> nat (sint (point_amount 0 u)) = 0"
  by (simp add: point_amount_def float_to_int_def fractf_def)





text \<open>
  Claim C10. In both scatter modes a triangle whose area is exactly zero emits no
  point, whatever the seed, the density and the density factors: its expected count
  is 0, so are the integer and the fractional part, and a uniform value \<open>u \<ge> 0\<close> is
  never below 0. The loop body returns the arrays as it got them.
\<close>

theorem zero_area_triangle_emits_nothing:
  assumes "looptri_positions mesh i = (v0, v1, v2)"
    and "area_tri_v3 h v0 v1 v2 = 0"
    and "0 \<le> fst (get_float h (looptri_rng h seed i))"
  shows "initial_uniform_looptri h mesh density seed i st = st \<and>
         random_scatter_looptri h mesh density density_factors seed i st' = st'"
proof -
  obtain u rng' where draw: "get_float h (looptri_rng h seed i) = (u, rng')"
    by (cases "get_float h (looptri_rng h seed i)")
  obtain f0 f1 f2 where fac: "looptri_density_factors mesh density_factors i = (f0, f1, f2)"
    by (cases "looptri_density_factors mesh density_factors i")
  from assms(3) draw have u: "0 \<le> u" by simp
  then have none: "nat (sint (point_amount 0 u)) = 0"
    by (rule point_amount_zero)
  show ?thesis
    unfolding initial_uniform_looptri_unfold [OF assms(1) draw]
      random_scatter_looptri_unfold [OF assms(1) fac draw] assms(2)
    using none by simp
qed

theorem zero_area_triangle_emits_nothing_witness:
  "looptri_positions example_flat_mesh 0 = (float3 0 0 0, float3 1 0 0, float3 2 0 0) \<and>
   area_tri_v3 example_host (float3 0 0 0) (float3 1 0 0) (float3 2 0 0) = 0 \<and>
   0 \<le> fst (get_float example_host (looptri_rng example_host 7 0)) \<and>
   initial_uniform_looptri example_host example_flat_mesh 100 7 0 ([], [], []) = ([], [], []) \<and>
   random_scatter_looptri example_host example_flat_mesh 100 (\<lambda>v. 3) 7 0 ([], [], []) =
     ([], [], [])"
proof -
  have h1: "looptri_positions example_flat_mesh 0 =
      (float3 0 0 0, float3 1 0 0, float3 2 0 0)"
    by (simp add: looptri_positions_def looptri_vertices_def get_mesh_looptris_def
        example_flat_mesh_def)
  have h2: "area_tri_v3 example_host (float3 0 0 0) (float3 1 0 0) (float3 2 0 0) = 0"
    by (simp add: example_host_def)
  have h3: "0 \<le> fst (get_float example_host (looptri_rng example_host 7 0))"
    by (simp add: example_host_def)
  from zero_area_triangle_emits_nothing [OF h1 h2 h3, where density = 100
      and st = "([], [], [])" and density_factors = "\<lambda>v. 3" and st' = "([], [], [])"] h1 h2 h3
  show ?thesis by (intro conjI) simp_all
qed


subsection \<open>Whole scatters, triangle by triangle\<close>

lemma initial_uniform_looptri_cases:
  "initial_uniform_looptri h mesh density seed i st =
     (case looptri_positions mesh i of
        (v0, v1, v2) \<Rightarrow>
          case get_float h (rng_new h (BLI_hash_int h (word_of_nat i + seed))) of
            (u, rng') \<Rightarrow>
              initial_uniform_emit h
                (nat (sint (point_amount (area_tri_v3 h v0 v1 v2 * density) u)))
                i v0 v1 v2 rng' st)"
proof -
  obtain v0 v1 v2 where pos: "looptri_positions mesh i = (v0, v1, v2)"
    by (cases "looptri_positions mesh i")
  obtain u rng' where draw: "get_float h (looptri_rng h seed i) = (u, rng')"
    by (cases "get_float h (looptri_rng h seed i)")
  from draw have draw': "get_float h (rng_new h (BLI_hash_int h (word_of_nat i + seed))) =
      (u, rng')"
    by (simp add: looptri_rng_def)
  show ?thesis
    unfolding initial_uniform_looptri_unfold [OF pos draw] by (simp add: pos draw')
qed

lemma random_scatter_looptri_cases:
  "random_scatter_looptri h mesh density density_factors seed i st =
     (case looptri_positions mesh i of
        (v0, v1, v2) \<Rightarrow>
          case looptri_density_factors mesh density_factors i of
            (f0, f1, f2) \<Rightarrow>
              case get_float h (rng_new h (BLI_hash_int h (word_of_nat i + seed))) of
                (u, rng') \<Rightarrow>
                  random_scatter_emit h
                    (nat (sint (point_amount
                       (area_tri_v3 h v0 v1 v2 * density *
                        ((max 0 f0 + max 0 f1 + max 0 f2) / 3)) u)))
                    i v0 v1 v2 rng' st)"
proof -
  obtain v0 v1 v2 where pos: "looptri_positions mesh i = (v0, v1, v2)"
    by (cases "looptri_positions mesh i")
  obtain f0 f1 f2 where fac: "looptri_density_factors mesh density_factors i = (f0, f1, f2)"
    by (cases "looptri_density_factors mesh density_factors i")
  obtain u rng' where draw: "get_float h (looptri_rng h seed i) = (u, rng')"
    by (cases "get_float h (looptri_rng h seed i)")
  from draw have draw': "get_float h (rng_new h (BLI_hash_int h (word_of_nat i + seed))) =
      (u, rng')"
    by (simp add: looptri_rng_def)
  show ?thesis
    unfolding random_scatter_looptri_unfold [OF pos fac draw] by (simp add: pos fac draw')
qed

lemma initial_uniform_distribution_chunks:
  "initial_uniform_distribution h mesh density seed ps bs ls =
     (ps @ concat (map (\<lambda>k. fst (initial_uniform_looptri h mesh density seed k ([], [], [])))
             [0..<length (get_mesh_looptris mesh)]),
      bs @ concat (map (\<lambda>k. fst (snd (initial_uniform_looptri h mesh density seed k
                                        ([], [], []))))
             [0..<length (get_mesh_looptris mesh)]),
      ls @ concat (map (\<lambda>k. snd (snd (initial_uniform_looptri h mesh density seed k
                                        ([], [], []))))
             [0..<length (get_mesh_looptris mesh)]))"
  using foldl_chunks [of "initial_uniform_looptri h mesh density seed" ps bs ls
      "[0..<length (get_mesh_looptris mesh)]", OF initial_uniform_looptri_append]
  by (simp add: initial_uniform_distribution_def)

lemma random_scatter_chunks:
  "random_scatter_points_from_mesh h mesh density df rn ri seed =
     (concat (map (\<lambda>k. fst (random_scatter_looptri h mesh density df seed k ([], [], [])))
        [0..<length (get_mesh_looptris mesh)]),
      rn @ concat (map (\<lambda>k. fst (snd (random_scatter_looptri h mesh density df seed k
                                        ([], [], []))))
             [0..<length (get_mesh_looptris mesh)]),
      ri @ concat (map (\<lambda>k. snd (snd (random_scatter_looptri h mesh density df seed k
                                        ([], [], []))))
             [0..<length (get_mesh_looptris mesh)]))"
  using foldl_chunks [of "random_scatter_looptri h mesh density df seed" "[]" rn ri
      "[0..<length (get_mesh_looptris mesh)]", OF random_scatter_looptri_append]
  by (simp add: random_scatter_points_from_mesh_def)

text \<open>A scatter reads the mesh only through the data of its triangles.\<close>

lemma same_triangles_nth:
  assumes "map f [0..<n] = map g [0..<m]"
  shows "n = m" and "\<And>k. k < n \<Longrightarrow> f k = g k"
proof -
  from assms have "length (map f [0..<n]) = length (map g [0..<m])" by simp
  then show nm: "n = m" by simp
  fix k assume "k < n"
  with assms nm have "map f [0..<n] ! k = map g [0..<n] ! k" by simp
  with \<open>k < n\<close> show "f k = g k" by simp
qed

lemma initial_uniform_distribution_same_triangles:
  assumes "map (looptri_positions m1) [0..<length (get_mesh_looptris m1)] =
           map (looptri_positions m2) [0..<length (get_mesh_looptris m2)]"
  shows "initial_uniform_distribution h m1 density seed ps bs ls =
         initial_uniform_distribution h m2 density seed ps bs ls"
proof -
  note same = same_triangles_nth [OF assms]
  have body: "initial_uniform_looptri h m1 density seed k ([], [], []) =
      initial_uniform_looptri h m2 density seed k ([], [], [])"
    if "k < length (get_mesh_looptris m1)" for k
    using same(2) [OF that] by (simp add: initial_uniform_looptri_cases)
  show ?thesis
    unfolding initial_uniform_distribution_chunks same(1) [symmetric]
    by (auto intro!: arg_cong [where f = concat] simp: body)
qed

lemma random_scatter_same_triangles:
  assumes "map (looptri_positions m1) [0..<length (get_mesh_looptris m1)] =
           map (looptri_positions m2) [0..<length (get_mesh_looptris m2)]"
    and "map (looptri_density_factors m1 df1) [0..<length (get_mesh_looptris m1)] =
         map (looptri_density_factors m2 df2) [0..<length (get_mesh_looptris m2)]"
  shows "random_scatter_points_from_mesh h m1 density df1 rn ri seed =
         random_scatter_points_from_mesh h m2 density df2 rn ri seed"
proof -
  note same = same_triangles_nth [OF assms(1)]
  note same_f = same_triangles_nth [OF assms(2)]
  have body: "random_scatter_looptri h m1 density df1 seed k ([], [], []) =
      random_scatter_looptri h m2 density df2 seed k ([], [], [])"
    if "k < length (get_mesh_looptris m1)" for k
    using same(2) [OF that] same_f(2) [OF that] by (simp add: random_scatter_looptri_cases)
  show ?thesis
    unfolding random_scatter_chunks same(1) [symmetric]
    by (auto intro!: arg_cong [where f = concat] simp: body)
qed


text \<open>
  Claim C3. The computation is deterministic. Two executions of the node on the same
  inputs return the same geometry set: the node is a function of its inputs, the
  state of a generator is passed explicitly and no state is shared between
  triangles or executions. More than that, two runs of a scatter on meshes that have
  the same triangle data (the same vertex positions, and in random mode the same
  vertex density factors, triangle by triangle) return the same arrays, whatever
  else differs in the meshes. Each scatter is the concatenation, in triangle order,
  of one chunk per triangle, and the chunk of triangle \<open>i\<close> is computed from the data
  of that triangle and from a generator made anew by
  \<open>rng_new (BLI_hash_int (i + seed))\<close>: it depends on no other triangle and on no
  result of another triangle.
\<close>

theorem scatter_deterministic_per_triangle:
  assumes "map (looptri_positions m1) [0..<length (get_mesh_looptris m1)] =
           map (looptri_positions m2) [0..<length (get_mesh_looptris m2)]"
    and "map (looptri_density_factors m1 df1) [0..<length (get_mesh_looptris m1)] =
         map (looptri_density_factors m2 df2) [0..<length (get_mesh_looptris m2)]"
    and "params1 = params2"
  shows "geo_node_point_distribute_exec h params1 = geo_node_point_distribute_exec h params2 \<and>
         initial_uniform_distribution h m1 density seed [] [] [] =
           initial_uniform_distribution h m2 density seed [] [] [] \<and>
         random_scatter_points_from_mesh h m1 density df1 [] [] seed =
           random_scatter_points_from_mesh h m2 density df2 [] [] seed \<and>
         initial_uniform_distribution h m1 density seed [] [] [] =
           (let chunk = (\<lambda>i. case looptri_positions m1 i of
                  (v0, v1, v2) \<Rightarrow>
                    case get_float h (rng_new h (BLI_hash_int h (word_of_nat i + seed))) of
                      (u, rng') \<Rightarrow>
                        initial_uniform_emit h
                          (nat (sint (point_amount (area_tri_v3 h v0 v1 v2 * density) u)))
                          i v0 v1 v2 rng' ([], [], []));
                triangles = [0..<length (get_mesh_looptris m1)]
            in (concat (map (\<lambda>i. fst (chunk i)) triangles),
                concat (map (\<lambda>i. fst (snd (chunk i))) triangles),
                concat (map (\<lambda>i. snd (snd (chunk i))) triangles))) \<and>
         random_scatter_points_from_mesh h m1 density df1 [] [] seed =
           (let chunk = (\<lambda>i. case looptri_positions m1 i of
                  (v0, v1, v2) \<Rightarrow>
                    case looptri_density_factors m1 df1 i of
                      (f0, f1, f2) \<Rightarrow>
                        case get_float h (rng_new h (BLI_hash_int h (word_of_nat i + seed))) of
                          (u, rng') \<Rightarrow>
                            random_scatter_emit h
                              (nat (sint (point_amount
                                 (area_tri_v3 h v0 v1 v2 * density *
                                  ((max 0 f0 + max 0 f1 + max 0 f2) / 3)) u)))
                              i v0 v1 v2 rng' ([], [], []));
                triangles = [0..<length (get_mesh_looptris m1)]
            in (concat (map (\<lambda>i. fst (chunk i)) triangles),
                concat (map (\<lambda>i. fst (snd (chunk i))) triangles),
                concat (map (\<lambda>i. snd (snd (chunk i))) triangles)))"
proof -
  have p0: "geo_node_point_distribute_exec h params1 = geo_node_point_distribute_exec h params2"
    using assms(3) by simp
  have p1: "initial_uniform_distribution h m1 density seed [] [] [] =
           initial_uniform_distribution h m2 density seed [] [] []"
    by (rule initial_uniform_distribution_same_triangles [OF assms(1)])
  have p2: "random_scatter_points_from_mesh h m1 density df1 [] [] seed =
           random_scatter_points_from_mesh h m2 density df2 [] [] seed"
    by (rule random_scatter_same_triangles [OF assms(1,2)])
  have p3: "initial_uniform_distribution h m1 density seed [] [] [] =
           (let chunk = (\<lambda>i. case looptri_positions m1 i of
                  (v0, v1, v2) \<Rightarrow>
                    case get_float h (rng_new h (BLI_hash_int h (word_of_nat i + seed))) of
                      (u, rng') \<Rightarrow>
                        initial_uniform_emit h
                          (nat (sint (point_amount (area_tri_v3 h v0 v1 v2 * density) u)))
                          i v0 v1 v2 rng' ([], [], []));
                triangles = [0..<length (get_mesh_looptris m1)]
            in (concat (map (\<lambda>i. fst (chunk i)) triangles),
                concat (map (\<lambda>i. fst (snd (chunk i))) triangles),
                concat (map (\<lambda>i. snd (snd (chunk i))) triangles)))"
    unfolding initial_uniform_distribution_chunks
    by (simp add: Let_def initial_uniform_looptri_cases)
  have p4: "random_scatter_points_from_mesh h m1 density df1 [] [] seed =
           (let chunk = (\<lambda>i. case looptri_positions m1 i of
                  (v0, v1, v2) \<Rightarrow>
                    case looptri_density_factors m1 df1 i of
                      (f0, f1, f2) \<Rightarrow>
                        case get_float h (rng_new h (BLI_hash_int h (word_of_nat i + seed))) of
                          (u, rng') \<Rightarrow>
                            random_scatter_emit h
                              (nat (sint (point_amount
                                 (area_tri_v3 h v0 v1 v2 * density *
                                  ((max 0 f0 + max 0 f1 + max 0 f2) / 3)) u)))
                              i v0 v1 v2 rng' ([], [], []));
                triangles = [0..<length (get_mesh_looptris m1)]
            in (concat (map (\<lambda>i. fst (chunk i)) triangles),
                concat (map (\<lambda>i. fst (snd (chunk i))) triangles),
                concat (map (\<lambda>i. snd (snd (chunk i))) triangles)))"
    unfolding random_scatter_chunks
    by (simp add: Let_def random_scatter_looptri_cases)
  from p0 p1 p2 p3 p4 show ?thesis by (intro conjI)
qed

theorem scatter_deterministic_per_triangle_witness:
  "map (looptri_positions example_mesh) [0..<length (get_mesh_looptris example_mesh)] =
     map (looptri_positions example_mesh2) [0..<length (get_mesh_looptris example_mesh2)] \<and>
   map (looptri_density_factors example_mesh (\<lambda>v. if v = 0 then 1 else 1 / 2))
       [0..<length (get_mesh_looptris example_mesh)] =
     map (looptri_density_factors example_mesh2
            (attribute_get_for_read example_mesh2 ''density'' 1))
       [0..<length (get_mesh_looptris example_mesh2)] \<and>
   example_params = example_params \<and>
   initial_uniform_distribution example_host example_mesh 1 0 [] [] [] =
     initial_uniform_distribution example_host example_mesh2 1 0 [] [] [] \<and>
   random_scatter_points_from_mesh example_host example_mesh 1
       (\<lambda>v. if v = 0 then 1 else 1 / 2) [] [] 0 =
     random_scatter_points_from_mesh example_host example_mesh2 1
       (attribute_get_for_read example_mesh2 ''density'' 1) [] [] 0"
proof -
  have h1: "map (looptri_positions example_mesh) [0..<length (get_mesh_looptris example_mesh)] =
     map (looptri_positions example_mesh2) [0..<length (get_mesh_looptris example_mesh2)]"
    by (simp add: looptri_positions_def looptri_vertices_def get_mesh_looptris_def
        example_mesh_def example_mesh2_def)
  have h2: "map (looptri_density_factors example_mesh (\<lambda>v. if v = 0 then 1 else 1 / 2))
       [0..<length (get_mesh_looptris example_mesh)] =
     map (looptri_density_factors example_mesh2
            (attribute_get_for_read example_mesh2 ''density'' 1))
       [0..<length (get_mesh_looptris example_mesh2)]"
    by (simp add: looptri_density_factors_def looptri_vertices_def get_mesh_looptris_def
        attribute_get_for_read_def example_mesh_def example_mesh2_def)
  have h3: "example_params = example_params" by (rule refl)
  note c = scatter_deterministic_per_triangle [OF h1 h2 h3, where h = example_host
      and density = 1 and seed = 0]
  from h1 h2 h3 c [THEN conjunct2, THEN conjunct1]
    c [THEN conjunct2, THEN conjunct2, THEN conjunct1]
  show ?thesis by (intro conjI)
qed














lemma random_scatter_looptri_factor:
  "random_scatter_looptri h mesh max_density density_factors seed i st =
     (case looptri_positions mesh i of
        (v0, v1, v2) \<Rightarrow>
          case looptri_density_factors mesh density_factors i of
            (f0, f1, f2) \<Rightarrow>
              case get_float h (looptri_rng h seed i) of
                (u, rng') \<Rightarrow>
                  let density_factor = (max 0 f0 + max 0 f1 + max 0 f2) / 3 * max_density;
                      expected_count = area_tri_v3 h v0 v1 v2 * density_factor
                  in random_scatter_emit h (nat (sint (point_amount expected_count u)))
                       i v0 v1 v2 rng' st)"
proof -
  obtain v0 v1 v2 where pos: "looptri_positions mesh i = (v0, v1, v2)"
    by (cases "looptri_positions mesh i")
  obtain f0 f1 f2 where fac: "looptri_density_factors mesh density_factors i = (f0, f1, f2)"
    by (cases "looptri_density_factors mesh density_factors i")
  obtain u rng' where draw: "get_float h (looptri_rng h seed i) = (u, rng')"
    by (cases "get_float h (looptri_rng h seed i)")
  have assoc: "area_tri_v3 h v0 v1 v2 * max_density * ((max 0 f0 + max 0 f1 + max 0 f2) / 3) =
      area_tri_v3 h v0 v1 v2 * ((max 0 f0 + max 0 f1 + max 0 f2) / 3 * max_density)"
    by simp
  show ?thesis
    unfolding random_scatter_looptri_unfold [OF pos fac draw] assoc
    by (simp add: pos fac draw Let_def)
qed

lemma random_scatter_looptri_clamped:
  "random_scatter_looptri h mesh max_density (\<lambda>v. max 0 (density_factors v)) seed i st =
   random_scatter_looptri h mesh max_density density_factors seed i st"
proof -
  obtain v0 v1 v2 where pos: "looptri_positions mesh i = (v0, v1, v2)"
    by (cases "looptri_positions mesh i")
  obtain f0 f1 f2 where fac: "looptri_density_factors mesh density_factors i = (f0, f1, f2)"
    by (cases "looptri_density_factors mesh density_factors i")
  obtain u rng' where draw: "get_float h (looptri_rng h seed i) = (u, rng')"
    by (cases "get_float h (looptri_rng h seed i)")
  have clamped: "looptri_density_factors mesh (\<lambda>v. max 0 (density_factors v)) i =
      (max 0 f0, max 0 f1, max 0 f2)"
    using fac by (auto simp: looptri_density_factors_def split: prod.splits)
  show ?thesis
    unfolding random_scatter_looptri_unfold [OF pos clamped draw]
      random_scatter_looptri_unfold [OF pos fac draw] by simp
qed

lemma random_scatter_looptri_constant_factor:
  assumes "0 \<le> c"
  shows "random_scatter_looptri h mesh max_density (\<lambda>v. c) seed i st =
         random_scatter_looptri h mesh (c * max_density) (\<lambda>v. 1) seed i st"
proof -
  obtain v0 v1 v2 where pos: "looptri_positions mesh i = (v0, v1, v2)"
    by (cases "looptri_positions mesh i")
  obtain u rng' where draw: "get_float h (looptri_rng h seed i) = (u, rng')"
    by (cases "get_float h (looptri_rng h seed i)")
  have fc: "looptri_density_factors mesh (\<lambda>v. c) i = (c, c, c)"
    by (simp add: looptri_density_factors_def split: prod.splits)
  have f1: "looptri_density_factors mesh (\<lambda>v. 1) i = (1, 1, 1)"
    by (simp add: looptri_density_factors_def split: prod.splits)
  from assms have c: "max 0 c = c" by simp
  have eq: "area_tri_v3 h v0 v1 v2 * max_density * ((max 0 c + max 0 c + max 0 c) / 3) =
      area_tri_v3 h v0 v1 v2 * (c * max_density) * ((max 0 1 + max 0 1 + max 0 1) / 3)"
    unfolding c by simp
  show ?thesis
    unfolding random_scatter_looptri_unfold [OF pos fc draw]
      random_scatter_looptri_unfold [OF pos f1 draw] eq ..
qed


text \<open>
  Claim C7. In random mode the whole scatter is, triangle by triangle, what the inner
  loop emits for an expected count that is the area times a density factor, and this
  density factor is the arithmetic mean of the three vertex factors, each clamped to
  0 from below, times the maximal density. Hence a negative attribute value is
  treated as 0 (clamping the attribute beforehand changes no output), and a constant
  factor \<open>c \<ge> 0\<close> on all vertices gives the output of the factor 1 at the maximal
  density \<open>c * max_density\<close>.
\<close>

theorem random_mode_uses_mean_density_factor:
  assumes "0 \<le> c"
  shows "random_scatter_points_from_mesh h mesh max_density density_factors [] [] seed =
           (let chunk = (\<lambda>i. case looptri_positions mesh i of
                  (v0, v1, v2) \<Rightarrow>
                    case looptri_density_factors mesh density_factors i of
                      (f0, f1, f2) \<Rightarrow>
                        case get_float h (looptri_rng h seed i) of
                          (u, rng') \<Rightarrow>
                            let density_factor =
                                  (max 0 f0 + max 0 f1 + max 0 f2) / 3 * max_density;
                                expected_count = area_tri_v3 h v0 v1 v2 * density_factor
                            in random_scatter_emit h
                                 (nat (sint (point_amount expected_count u)))
                                 i v0 v1 v2 rng' ([], [], []));
                triangles = [0..<length (get_mesh_looptris mesh)]
            in (concat (map (\<lambda>i. fst (chunk i)) triangles),
                concat (map (\<lambda>i. fst (snd (chunk i))) triangles),
                concat (map (\<lambda>i. snd (snd (chunk i))) triangles))) \<and>
         random_scatter_points_from_mesh h mesh max_density
             (\<lambda>v. max 0 (density_factors v)) [] [] seed =
           random_scatter_points_from_mesh h mesh max_density density_factors [] [] seed \<and>
         random_scatter_points_from_mesh h mesh max_density (\<lambda>v. c) [] [] seed =
           random_scatter_points_from_mesh h mesh (c * max_density) (\<lambda>v. 1) [] [] seed"
proof -
  have p1: "random_scatter_points_from_mesh h mesh max_density density_factors [] [] seed =
           (let chunk = (\<lambda>i. case looptri_positions mesh i of
                  (v0, v1, v2) \<Rightarrow>
                    case looptri_density_factors mesh density_factors i of
                      (f0, f1, f2) \<Rightarrow>
                        case get_float h (looptri_rng h seed i) of
                          (u, rng') \<Rightarrow>
                            let density_factor =
                                  (max 0 f0 + max 0 f1 + max 0 f2) / 3 * max_density;
                                expected_count = area_tri_v3 h v0 v1 v2 * density_factor
                            in random_scatter_emit h
                                 (nat (sint (point_amount expected_count u)))
                                 i v0 v1 v2 rng' ([], [], []));
                triangles = [0..<length (get_mesh_looptris mesh)]
            in (concat (map (\<lambda>i. fst (chunk i)) triangles),
                concat (map (\<lambda>i. fst (snd (chunk i))) triangles),
                concat (map (\<lambda>i. snd (snd (chunk i))) triangles)))"
    unfolding random_scatter_chunks
    by (simp add: Let_def random_scatter_looptri_factor [where st = "([], [], [])"])
  have "(\<lambda>st looptri_index. random_scatter_looptri h mesh max_density
            (\<lambda>v. max 0 (density_factors v)) seed looptri_index st) =
        (\<lambda>st looptri_index. random_scatter_looptri h mesh max_density
            density_factors seed looptri_index st)"
    by (intro ext) (rule random_scatter_looptri_clamped)
  then have p2: "random_scatter_points_from_mesh h mesh max_density
             (\<lambda>v. max 0 (density_factors v)) [] [] seed =
           random_scatter_points_from_mesh h mesh max_density density_factors [] [] seed"
    by (simp add: random_scatter_points_from_mesh_def)
  have "(\<lambda>st looptri_index. random_scatter_looptri h mesh max_density (\<lambda>v. c) seed
            looptri_index st) =
        (\<lambda>st looptri_index. random_scatter_looptri h mesh (c * max_density) (\<lambda>v. 1) seed
            looptri_index st)"
    by (intro ext) (rule random_scatter_looptri_constant_factor [OF assms])
  then have p3: "random_scatter_points_from_mesh h mesh max_density (\<lambda>v. c) [] [] seed =
           random_scatter_points_from_mesh h mesh (c * max_density) (\<lambda>v. 1) [] [] seed"
    by (simp add: random_scatter_points_from_mesh_def)
  from p1 p2 p3 show ?thesis by (intro conjI)
qed


theorem random_mode_uses_mean_density_factor_witness:
  "(0::real) \<le> 1 / 2 \<and>
   random_scatter_points_from_mesh example_host example_mesh 2
       (\<lambda>v. max 0 (if v = 0 then - 1 else 3 / 4)) [] [] 0 =
     random_scatter_points_from_mesh example_host example_mesh 2
       (\<lambda>v. if v = 0 then - 1 else 3 / 4) [] [] 0 \<and>
   random_scatter_points_from_mesh example_host example_mesh 2 (\<lambda>v. 1 / 2) [] [] 0 =
     random_scatter_points_from_mesh example_host example_mesh (1 / 2 * 2) (\<lambda>v. 1) [] [] 0 \<and>
   random_scatter_points_from_mesh example_host example_mesh 2
       (\<lambda>v. if v = 0 then - 1 else 3 / 4) [] [] 0 =
     ([float3 (2 / 3) (2 / 3) 0, float3 (1 / 2) 1 0], [float3 0 0 1, float3 0 0 1],
      [333, 250])"
proof -
  have h: "(0::real) \<le> 1 / 2" by simp
  note c = random_mode_uses_mean_density_factor [OF h, where h = example_host
      and mesh = example_mesh and max_density = 2 and seed = 0
      and density_factors = "\<lambda>v. if v = 0 then - 1 else 3 / 4"]
  have run: "random_scatter_points_from_mesh example_host example_mesh 2
       (\<lambda>v. if v = 0 then - 1 else 3 / 4) [] [] 0 =
     ([float3 (2 / 3) (2 / 3) 0, float3 (1 / 2) 1 0], [float3 0 0 1, float3 0 0 1],
      [333, 250])"
    by code_simp
  from h c [THEN conjunct2, THEN conjunct1] c [THEN conjunct2, THEN conjunct2] run
  show ?thesis by (intro conjI)
qed

subsection \<open>The node's execute function\<close>

lemma exec_point_count:
  "output_point_count (geo_node_point_distribute_exec h params) =
     (case mesh_component (input_geometry params) of
        None \<Rightarrow> 0
      | Some mesh_in \<Rightarrow>
          if input_density_max params \<le> 0 \<or> mpoly mesh_in = None then 0
          else length (fst (case node_custom1 params of
                 GEO_NODE_POINT_DISTRIBUTE_RANDOM \<Rightarrow>
                   random_scatter_points_from_mesh h mesh_in (input_density_max params)
                     (attribute_get_for_read mesh_in (input_density_attribute params) 1)
                     [] [] (input_seed params)
               | GEO_NODE_POINT_DISTRIBUTE_POISSON \<Rightarrow>
                   stable_random_scatter_with_minimum_distance h mesh_in
                     (input_density_max params) (input_distance_min params)
                     (attribute_get_for_read mesh_in (input_density_attribute params) 1)
                     [] [] (input_seed params))))"
  by (auto simp: geo_node_point_distribute_exec_def output_point_count_def Let_def
      split: option.splits prod.splits GeometryNodePointDistributeMethod.splits)

lemma random_scatter_no_triangles:
  "get_mesh_looptris mesh = [] \<Longrightarrow>
   random_scatter_points_from_mesh h mesh density df rn ri seed = ([], rn, ri)"
  by (simp add: random_scatter_points_from_mesh_def)

lemma initial_uniform_no_triangles:
  "get_mesh_looptris mesh = [] \<Longrightarrow>
   initial_uniform_distribution h mesh density seed ps bs ls = (ps, bs, ls)"
  by (simp add: initial_uniform_distribution_def)

lemma stable_scatter_no_triangles:
  "get_mesh_looptris mesh = [] \<Longrightarrow>
   fst (stable_random_scatter_with_minimum_distance h mesh density r df rn ri seed) = []"
  by (simp add: stable_scatter_points initial_uniform_no_triangles)


text \<open>
  Claim C6. For every degenerate input (a geometry without a mesh, a density
  \<open>\<le> 0\<close>, or a mesh with zero triangles) the node returns a geometry set with zero
  points, in random and in minimum-distance mode alike. The execute function has no
  failing path: each of these cases is an early return of the empty geometry set or a
  scatter whose loops have nothing to visit.
\<close>

theorem degenerate_input_gives_no_points:
  assumes "mesh_component (input_geometry params) = None \<or>
           input_density_max params \<le> 0 \<or>
           (\<exists>mesh. mesh_component (input_geometry params) = Some mesh \<and>
                   get_mesh_looptris mesh = [])"
  shows "output_point_count (geo_node_point_distribute_exec h params) = 0"
proof (cases "mesh_component (input_geometry params)")
  case None
  then show ?thesis by (simp add: exec_point_count)
next
  case (Some mesh_in)
  show ?thesis
  proof (cases "input_density_max params \<le> 0")
    case True
    with Some show ?thesis by (simp add: exec_point_count)
  next
    case False
    with assms Some have "get_mesh_looptris mesh_in = []" by auto
    with Some show ?thesis
      by (simp add: exec_point_count random_scatter_no_triangles stable_scatter_no_triangles
          split: GeometryNodePointDistributeMethod.splits)
  qed
qed

theorem degenerate_input_gives_no_points_witness:
  "mesh_component (input_geometry
      (example_params\<lparr>input_geometry :=
         \<lparr>mesh_component = None, pointcloud_component = None\<rparr>\<rparr>)) = None \<and>
   output_point_count (geo_node_point_distribute_exec example_host
      (example_params\<lparr>input_geometry :=
         \<lparr>mesh_component = None, pointcloud_component = None\<rparr>\<rparr>)) = 0 \<and>
   input_density_max
      (example_params\<lparr>input_density_max := 0,
         node_custom1 := GEO_NODE_POINT_DISTRIBUTE_RANDOM\<rparr>) \<le> 0 \<and>
   output_point_count (geo_node_point_distribute_exec example_host
      (example_params\<lparr>input_density_max := 0,
         node_custom1 := GEO_NODE_POINT_DISTRIBUTE_RANDOM\<rparr>)) = 0 \<and>
   mesh_component (input_geometry
      (example_params\<lparr>input_geometry :=
         \<lparr>mesh_component = Some (example_mesh\<lparr>runtime_looptris := []\<rparr>),
          pointcloud_component = None\<rparr>\<rparr>)) =
     Some (example_mesh\<lparr>runtime_looptris := []\<rparr>) \<and>
   get_mesh_looptris (example_mesh\<lparr>runtime_looptris := []\<rparr>) = [] \<and>
   output_point_count (geo_node_point_distribute_exec example_host
      (example_params\<lparr>input_geometry :=
         \<lparr>mesh_component = Some (example_mesh\<lparr>runtime_looptris := []\<rparr>),
          pointcloud_component = None\<rparr>\<rparr>)) = 0"
proof -
  let ?p1 = "example_params\<lparr>input_geometry :=
         \<lparr>mesh_component = None, pointcloud_component = None\<rparr>\<rparr>"
  let ?p2 = "example_params\<lparr>input_density_max := 0,
         node_custom1 := GEO_NODE_POINT_DISTRIBUTE_RANDOM\<rparr>"
  let ?p3 = "example_params\<lparr>input_geometry :=
         \<lparr>mesh_component = Some (example_mesh\<lparr>runtime_looptris := []\<rparr>),
          pointcloud_component = None\<rparr>\<rparr>"
  have h1: "mesh_component (input_geometry ?p1) = None" by simp
  have h2: "input_density_max ?p2 \<le> 0" by simp
  have h3: "mesh_component (input_geometry ?p3) =
      Some (example_mesh\<lparr>runtime_looptris := []\<rparr>)" by simp
  have h4: "get_mesh_looptris (example_mesh\<lparr>runtime_looptris := []\<rparr>) = []"
    by (simp add: get_mesh_looptris_def)
  have c1: "output_point_count (geo_node_point_distribute_exec example_host ?p1) = 0"
    using h1 by (intro degenerate_input_gives_no_points) simp
  have c2: "output_point_count (geo_node_point_distribute_exec example_host ?p2) = 0"
    using h2 by (intro degenerate_input_gives_no_points) simp
  have c3: "output_point_count (geo_node_point_distribute_exec example_host ?p3) = 0"
    using h3 h4 by (intro degenerate_input_gives_no_points) simp
  from h1 c1 h2 c2 h3 h4 c3 show ?thesis by (intro conjI)
qed


lemma get_mesh_looptris_attributes:
  "get_mesh_looptris (mesh\<lparr>point_attributes := a\<rparr>) = get_mesh_looptris mesh"
  by (simp add: get_mesh_looptris_def)

lemma initial_uniform_looptri_attributes:
  "initial_uniform_looptri h (mesh\<lparr>point_attributes := a\<rparr>) density seed i st =
   initial_uniform_looptri h mesh density seed i st"
  by (simp add: initial_uniform_looptri_def get_mesh_looptris_attributes)

lemma initial_uniform_distribution_attributes:
  "initial_uniform_distribution h (mesh\<lparr>point_attributes := a\<rparr>) density seed ps bs ls =
   initial_uniform_distribution h mesh density seed ps bs ls"
  by (simp add: initial_uniform_distribution_def get_mesh_looptris_attributes
      initial_uniform_looptri_attributes)

lemma compute_remaining_point_data_attributes:
  "compute_remaining_point_data h (mesh\<lparr>point_attributes := a\<rparr>) bs ls rn ri =
   compute_remaining_point_data h mesh bs ls rn ri"
proof -
  have "compute_remaining_point_step h (mesh\<lparr>point_attributes := a\<rparr>) bs ls =
        compute_remaining_point_step h mesh bs ls"
    by (intro ext) (simp add: compute_remaining_point_step_def get_mesh_looptris_attributes)
  then show ?thesis by (simp add: compute_remaining_point_data_def)
qed

lemma stable_scatter_attributes:
  "stable_random_scatter_with_minimum_distance h (mesh\<lparr>point_attributes := a\<rparr>)
       max_density r df1 rn ri seed =
   stable_random_scatter_with_minimum_distance h mesh max_density r df2 rn ri seed"
  by (simp add: stable_random_scatter_with_minimum_distance_def
      initial_uniform_distribution_attributes compute_remaining_point_data_attributes)


text \<open>
  Claim C9. In minimum-distance mode the output does not depend on the density
  factors: \<open>stable_random_scatter_with_minimum_distance\<close> returns the same for any
  two \<open>density_factors\<close>, and two executions of the node in this mode that differ
  only in the attributes of the mesh and in the name of the density attribute return
  the same geometry set.
\<close>

theorem poisson_ignores_density_factors:
  "stable_random_scatter_with_minimum_distance h mesh max_density minimum_distance
       density_factors1 r_normals r_ids seed =
   stable_random_scatter_with_minimum_distance h mesh max_density minimum_distance
       density_factors2 r_normals r_ids seed \<and>
   geo_node_point_distribute_exec h
     (params\<lparr>node_custom1 := GEO_NODE_POINT_DISTRIBUTE_POISSON,
             input_density_attribute := name1,
             input_geometry := \<lparr>mesh_component = Some (mesh\<lparr>point_attributes := attrs1\<rparr>),
                                pointcloud_component = pc\<rparr>\<rparr>) =
   geo_node_point_distribute_exec h
     (params\<lparr>node_custom1 := GEO_NODE_POINT_DISTRIBUTE_POISSON,
             input_density_attribute := name2,
             input_geometry := \<lparr>mesh_component = Some (mesh\<lparr>point_attributes := attrs2\<rparr>),
                                pointcloud_component = pc\<rparr>\<rparr>)"
proof -
  have p1: "stable_random_scatter_with_minimum_distance h mesh max_density minimum_distance
       density_factors1 r_normals r_ids seed =
   stable_random_scatter_with_minimum_distance h mesh max_density minimum_distance
       density_factors2 r_normals r_ids seed"
    by (simp add: stable_random_scatter_with_minimum_distance_def)
  have run: "stable_random_scatter_with_minimum_distance h (mesh\<lparr>point_attributes := attrs1\<rparr>)
       d r (attribute_get_for_read (mesh\<lparr>point_attributes := attrs1\<rparr>) name1 1) [] [] s =
     stable_random_scatter_with_minimum_distance h (mesh\<lparr>point_attributes := attrs2\<rparr>)
       d r (attribute_get_for_read (mesh\<lparr>point_attributes := attrs2\<rparr>) name2 1) [] [] s"
    for d r s
    unfolding stable_scatter_attributes [where ?df2.0 = "\<lambda>v. 0"] ..
  have p2: "geo_node_point_distribute_exec h
     (params\<lparr>node_custom1 := GEO_NODE_POINT_DISTRIBUTE_POISSON,
             input_density_attribute := name1,
             input_geometry := \<lparr>mesh_component = Some (mesh\<lparr>point_attributes := attrs1\<rparr>),
                                pointcloud_component = pc\<rparr>\<rparr>) =
   geo_node_point_distribute_exec h
     (params\<lparr>node_custom1 := GEO_NODE_POINT_DISTRIBUTE_POISSON,
             input_density_attribute := name2,
             input_geometry := \<lparr>mesh_component = Some (mesh\<lparr>point_attributes := attrs2\<rparr>),
                                pointcloud_component = pc\<rparr>\<rparr>)"
    by (simp add: geo_node_point_distribute_exec_def Let_def run)
  from p1 p2 show ?thesis by (rule conjI)
qed

subsection \<open>The stable id\<close>

text \<open>The ids and lengths of the attribute finalization.\<close>

lemma compute_remaining_point_step_ids:
  "snd (compute_remaining_point_step h mesh bs ls (rn, ri) i) =
     ri[i := stable_id h (bs ! i) (ls ! i)]"
  by (simp add: compute_remaining_point_step_def Let_def stable_id_def)

lemma compute_remaining_ids_prefix:
  assumes "k \<le> length ri" "j < length ri"
  shows "length (snd (foldl (compute_remaining_point_step h mesh bs ls) (rn, ri) [0..<k])) =
           length ri \<and>
         snd (foldl (compute_remaining_point_step h mesh bs ls) (rn, ri) [0..<k]) ! j =
           (if j < k then stable_id h (bs ! j) (ls ! j) else ri ! j)"
  using assms(1)
proof (induction k)
  case 0
  then show ?case by simp
next
  case (Suc k)
  obtain rn' ri' where st:
    "foldl (compute_remaining_point_step h mesh bs ls) (rn, ri) [0..<k] = (rn', ri')"
    by (cases "foldl (compute_remaining_point_step h mesh bs ls) (rn, ri) [0..<k]")
  from Suc have ih: "length ri' = length ri"
    "ri' ! j = (if j < k then stable_id h (bs ! j) (ls ! j) else ri ! j)"
    by (simp_all add: st)
  have k: "k < length ri'" using Suc.prems ih(1) by simp
  have next_ids: "snd (foldl (compute_remaining_point_step h mesh bs ls) (rn, ri) [0..<Suc k]) =
      ri'[k := stable_id h (bs ! k) (ls ! k)]"
    using compute_remaining_point_step_ids [of h mesh bs ls rn' ri' k] by (simp add: st)
  show ?case
    unfolding next_ids using ih k assms(2)
    by (cases "j = k") simp_all
qed

lemma compute_remaining_point_data_ids:
  assumes "length ri = length bs" "length ls = length bs"
  shows "snd (compute_remaining_point_data h mesh bs ls rn ri) = map2 (stable_id h) bs ls"
proof (rule nth_equalityI)
  show len: "length (snd (compute_remaining_point_data h mesh bs ls rn ri)) =
      length (map2 (stable_id h) bs ls)"
  proof (cases "bs = []")
    case True
    with assms show ?thesis by (simp add: compute_remaining_point_data_def)
  next
    case False
    with assms have "0 < length ri" by simp
    with compute_remaining_ids_prefix [of "length bs" ri 0 h mesh bs ls rn] assms
    show ?thesis by (simp add: compute_remaining_point_data_def)
  qed
  fix j
  assume "j < length (snd (compute_remaining_point_data h mesh bs ls rn ri))"
  with len assms have j: "j < length bs" by simp
  with compute_remaining_ids_prefix [of "length bs" ri j h mesh bs ls rn] assms
  show "snd (compute_remaining_point_data h mesh bs ls rn ri) ! j =
      map2 (stable_id h) bs ls ! j"
    by (simp add: compute_remaining_point_data_def)
qed

lemma compact_loop_length:
  "length xs = length ys \<Longrightarrow>
   length (compact_loop em k xs) = length (compact_loop em k ys)"
proof -
  assume len: "length xs = length ys"
  have "map (\<lambda>x. ()) (compact_loop em k xs) = compact_loop em k (map (\<lambda>x. ()) xs)"
    by (simp add: compact_loop_map)
  also have "map (\<lambda>x. ()) xs = map (\<lambda>y. ()) ys"
    using len by (simp add: map_replicate_const)
  also have "compact_loop em k (map (\<lambda>y. ()) ys) = map (\<lambda>y. ()) (compact_loop em k ys)"
    by (simp add: compact_loop_map)
  finally show ?thesis
    by (metis length_map)
qed

text \<open>The three arrays of the uniform distribution have one length.\<close>

lemma initial_uniform_looptri_lengths:
  assumes "length bs = length ps" "length ls = length ps"
    and "initial_uniform_looptri h mesh density seed i (ps, bs, ls) = (ps', bs', ls')"
  shows "length bs' = length ps' \<and> length ls' = length ps'"
proof -
  obtain v0 v1 v2 where pos: "looptri_positions mesh i = (v0, v1, v2)"
    by (cases "looptri_positions mesh i")
  obtain u rng' where draw: "get_float h (looptri_rng h seed i) = (u, rng')"
    by (cases "get_float h (looptri_rng h seed i)")
  let ?n = "nat (sint (point_amount (area_tri_v3 h v0 v1 v2 * density) u))"
  obtain p b l where e: "initial_uniform_emit h ?n i v0 v1 v2 rng' ([], [], []) = (p, b, l)"
    by (cases "initial_uniform_emit h ?n i v0 v1 v2 rng' ([], [], [])")
  from assms(3) have "(ps', bs', ls') = (ps @ p, bs @ b, ls @ l)"
    unfolding initial_uniform_looptri_unfold [OF pos draw]
    by (simp add: initial_uniform_emit_append [of h ?n i v0 v1 v2 rng' ps bs ls] e)
  with initial_uniform_emit_length [OF e] assms(1,2) show ?thesis by simp
qed

lemma initial_uniform_foldl_lengths:
  assumes "length bs = length ps" "length ls = length ps"
    and "foldl (\<lambda>st i. initial_uniform_looptri h mesh density seed i st) (ps, bs, ls) js =
           (ps', bs', ls')"
  shows "length bs' = length ps' \<and> length ls' = length ps'"
  using assms
proof (induction js arbitrary: ps bs ls)
  case Nil
  then show ?case by simp
next
  case (Cons j js)
  obtain p b l where step: "initial_uniform_looptri h mesh density seed j (ps, bs, ls) = (p, b, l)"
    by (cases "initial_uniform_looptri h mesh density seed j (ps, bs, ls)")
  from initial_uniform_looptri_lengths [OF Cons.prems(1,2) step]
  have "length b = length p" "length l = length p" by simp_all
  then show ?case
    using Cons.IH [of b p l] Cons.prems(3) by (simp add: step)
qed

lemma initial_uniform_distribution_lengths:
  "initial_uniform_distribution h mesh density seed [] [] [] = (ps, bs, ls) \<Longrightarrow>
   length bs = length ps \<and> length ls = length ps"
  using initial_uniform_foldl_lengths [of "[]" "[]" "[]" h mesh density seed _ ps bs ls]
  by (simp add: initial_uniform_distribution_def)

lemma random_uniform_looptri:
  assumes "initial_uniform_looptri h mesh density seed i ([], [], []) = (p, b, l)"
  shows "fst (random_scatter_looptri h mesh density (\<lambda>v. 1) seed i (points, normals, ids)) =
           points @ p \<and>
         snd (snd (random_scatter_looptri h mesh density (\<lambda>v. 1) seed i
                     (points, normals, ids))) = ids @ map2 (stable_id h) b l"
proof -
  obtain v0 v1 v2 where pos: "looptri_positions mesh i = (v0, v1, v2)"
    by (cases "looptri_positions mesh i")
  obtain u rng' where draw: "get_float h (looptri_rng h seed i) = (u, rng')"
    by (cases "get_float h (looptri_rng h seed i)")
  have fac: "looptri_density_factors mesh (\<lambda>v. 1) i = (1, 1, 1)"
    by (simp add: looptri_density_factors_def split: prod.splits)
  have one: "area_tri_v3 h v0 v1 v2 * density * ((max 0 1 + max 0 1 + max 0 1) / 3) =
      area_tri_v3 h v0 v1 v2 * density"
    by simp
  show ?thesis
    using assms
    unfolding random_scatter_looptri_unfold [OF pos fac draw]
      initial_uniform_looptri_unfold [OF pos draw] one
    by (simp add: random_scatter_emit_uniform)
qed

lemma random_uniform_foldl:
  assumes "fst R = ps" "snd (snd R) = map2 (stable_id h) bs ls"
    and "length bs = length ps" "length ls = length ps"
    and "foldl (\<lambda>st i. initial_uniform_looptri h mesh density seed i st) (ps, bs, ls) js =
           (ps', bs', ls')"
  shows "fst (foldl (\<lambda>st i. random_scatter_looptri h mesh density (\<lambda>v. 1) seed i st) R js) =
           ps' \<and>
         snd (snd (foldl (\<lambda>st i. random_scatter_looptri h mesh density (\<lambda>v. 1) seed i st)
                     R js)) = map2 (stable_id h) bs' ls'"
  using assms
proof (induction js arbitrary: R ps bs ls)
  case Nil
  then show ?case by simp
next
  case (Cons j js)
  obtain points normals ids where R: "R = (points, normals, ids)" by (cases R)
  obtain p b l where chunk: "initial_uniform_looptri h mesh density seed j ([], [], []) = (p, b, l)"
    by (cases "initial_uniform_looptri h mesh density seed j ([], [], [])")
  have step: "initial_uniform_looptri h mesh density seed j (ps, bs, ls) =
      (ps @ p, bs @ b, ls @ l)"
    by (simp add: initial_uniform_looptri_append [of h mesh density seed j ps bs ls] chunk)
  from initial_uniform_looptri_lengths [OF Cons.prems(3,4) step]
  have len: "length (bs @ b) = length (ps @ p)" "length (ls @ l) = length (ps @ p)"
    by simp_all
  let ?R = "random_scatter_looptri h mesh density (\<lambda>v. 1) seed j R"
  from random_uniform_looptri [OF chunk, of points normals ids] Cons.prems(1,2,3,4) len
  have r1: "fst ?R = ps @ p" and r2: "snd (snd ?R) = map2 (stable_id h) (bs @ b) (ls @ l)"
    by (simp_all add: R)
  from Cons.prems(5) have rest:
    "foldl (\<lambda>st i. initial_uniform_looptri h mesh density seed i st)
       (ps @ p, bs @ b, ls @ l) js = (ps', bs', ls')"
    by (simp add: step)
  from Cons.IH [OF r1 r2 len rest] show ?case by simp
qed

lemma random_uniform_scatter:
  assumes "initial_uniform_distribution h mesh density seed [] [] [] = (ps, bs, ls)"
  shows "fst (random_scatter_points_from_mesh h mesh density (\<lambda>v. 1) [] [] seed) = ps \<and>
         snd (snd (random_scatter_points_from_mesh h mesh density (\<lambda>v. 1) [] [] seed)) =
           map2 (stable_id h) bs ls"
  using random_uniform_foldl [of "([], [], [])" "[]" h "[]" "[]" mesh density seed
      "[0..<length (get_mesh_looptris mesh)]" ps bs ls] assms
  by (simp add: random_scatter_points_from_mesh_def initial_uniform_distribution_def)

lemma stable_scatter_ids:
  assumes "initial_uniform_distribution h mesh density seed [] [] [] = (ps, bs, ls)"
    and "eliminate_points_based_on_mask
           (create_elimination_mask_for_close_points ps r (replicate (length ps) False))
           ps bs ls = (ps', bs', ls')"
  shows "stable_random_scatter_with_minimum_distance h mesh density r df rn ri seed =
           (ps', fst (compute_remaining_point_data h mesh bs' ls'
                        (resize (length ps') (float3 0 0 0) rn) (resize (length ps') 0 ri)),
            map2 (stable_id h) bs' ls')"
proof -
  from initial_uniform_distribution_lengths [OF assms(1)]
  have len: "length bs = length ps" "length ls = length ps" by simp_all
  from assms(2) have c: "ps' = compact_loop
      (create_elimination_mask_for_close_points ps r (replicate (length ps) False))
      (length ps) ps"
    "bs' = compact_loop
      (create_elimination_mask_for_close_points ps r (replicate (length ps) False))
      (length ps) bs"
    "ls' = compact_loop
      (create_elimination_mask_for_close_points ps r (replicate (length ps) False))
      (length ps) ls"
    by (simp_all add: eliminate_points_compact)
  have len': "length bs' = length ps'" "length ls' = length ps'"
    unfolding c using len
    by (auto intro: compact_loop_length)
  have "length (resize (length ps') (0 :: 32 word) ri) = length bs'"
    using len' by (simp add: resize_def)
  with compute_remaining_point_data_ids [of "resize (length ps') 0 ri" bs' ls' h mesh
      "resize (length ps') (float3 0 0 0) rn"] len'
  have ids: "snd (compute_remaining_point_data h mesh bs' ls'
      (resize (length ps') (float3 0 0 0) rn) (resize (length ps') 0 ri)) =
      map2 (stable_id h) bs' ls'" by simp
  show ?thesis
    using assms ids
    by (simp add: stable_random_scatter_with_minimum_distance_def Let_def prod_eq_iff
        split: prod.splits)
qed


text \<open>
  Claim C8. In both modes the id of an output point is the hash of its barycentric
  coordinate, cast to a 32-bit integer, plus the index of its triangle. The inner
  loop of random mode appends, for every point, the id that this expression gives
  for the barycentric coordinate and triangle of that point (first conjunct, for
  every number of points, triangle and generator state); the finalization of
  minimum-distance mode gives every surviving candidate the same expression of its
  retained barycentric coordinate and triangle index. With all density factors 1 the
  random mode emits exactly the candidates of the minimum-distance mode, and every
  point the latter returns is one of them, with the same position and the same id.
\<close>

theorem stable_id_same_in_both_modes:
  assumes "initial_uniform_distribution h mesh density seed [] [] [] = (ps, bs, ls)"
    and "eliminate_points_based_on_mask
           (create_elimination_mask_for_close_points ps minimum_distance
              (replicate (length ps) False)) ps bs ls = (ps', bs', ls')"
    and "random_scatter_points_from_mesh h mesh density (\<lambda>v. 1) [] [] seed =
           (points_random, normals_random, ids_random)"
    and "stable_random_scatter_with_minimum_distance h mesh density minimum_distance
           density_factors [] [] seed = (points_poisson, normals_poisson, ids_poisson)"
  shows "random_scatter_emit h n i v0 v1 v2 rng (points, normals, ids) =
           (case initial_uniform_emit h n i v0 v1 v2 rng ([], [], []) of
              (emitted, emitted_bary_coords, emitted_looptri_indices) \<Rightarrow>
                (points @ emitted,
                 normals @ map (\<lambda>l. normal_tri_v3 h v0 v1 v2) emitted_looptri_indices,
                 ids @ map2 (\<lambda>bary_coords looptri_index.
                               ucast (float3_hash h bary_coords) + word_of_nat looptri_index)
                         emitted_bary_coords emitted_looptri_indices)) \<and>
         points_poisson = ps' \<and>
         ids_poisson =
           map2 (\<lambda>bary_coords looptri_index.
                   ucast (float3_hash h bary_coords) + word_of_nat looptri_index) bs' ls' \<and>
         points_random = ps \<and>
         ids_random =
           map2 (\<lambda>bary_coords looptri_index.
                   ucast (float3_hash h bary_coords) + word_of_nat looptri_index) bs ls \<and>
         (\<exists>idx. distinct idx \<and> set idx \<subseteq> {..<length points_random} \<and>
                points_poisson = map ((!) points_random) idx \<and>
                ids_poisson = map ((!) ids_random) idx)"
proof -
  have sid: "(\<lambda>bary_coords looptri_index.
      ucast (float3_hash h bary_coords) + word_of_nat looptri_index) = stable_id h"
    by (intro ext) (simp add: stable_id_def)
  let ?em = "create_elimination_mask_for_close_points ps minimum_distance
              (replicate (length ps) False)"
  from initial_uniform_distribution_lengths [OF assms(1)]
  have len: "length bs = length ps" "length ls = length ps" by simp_all
  have p1: "random_scatter_emit h n i v0 v1 v2 rng (points, normals, ids) =
           (case initial_uniform_emit h n i v0 v1 v2 rng ([], [], []) of
              (emitted, emitted_bary_coords, emitted_looptri_indices) \<Rightarrow>
                (points @ emitted,
                 normals @ map (\<lambda>l. normal_tri_v3 h v0 v1 v2) emitted_looptri_indices,
                 ids @ map2 (stable_id h) emitted_bary_coords emitted_looptri_indices))"
    by (rule random_scatter_emit_uniform)
  from stable_scatter_ids [OF assms(1,2), of density_factors "[]" "[]"] assms(4)
  have p2: "points_poisson = ps'" and p3: "ids_poisson = map2 (stable_id h) bs' ls'"
    by simp_all
  from random_uniform_scatter [OF assms(1)] assms(3)
  have p4: "points_random = ps" and p5: "ids_random = map2 (stable_id h) bs ls"
    by simp_all
  let ?idx = "compact_loop ?em (length ps) [0..<length ps]"
  have dist: "distinct ?idx" and set: "set ?idx = {i. i < length ps \<and> \<not> ?em ! i}"
    using compact_loop_range [of ?em "length ps"] by simp_all
  from assms(2) have c: "ps' = map ((!) ps) ?idx" "bs' = map ((!) bs) ?idx"
    "ls' = map ((!) ls) ?idx"
    using compact_loop_nth [of ?em ps] compact_loop_nth [of ?em bs]
      compact_loop_nth [of ?em ls] len
    by (simp_all add: eliminate_points_compact)
  have ids: "map2 (stable_id h) bs' ls' = map ((!) (map2 (stable_id h) bs ls)) ?idx"
    unfolding c using set len
    by (auto simp: zip_map_map map_eq_conv split_def zip_same_conv_map)
  have "distinct ?idx \<and> set ?idx \<subseteq> {..<length points_random} \<and>
      points_poisson = map ((!) points_random) ?idx \<and>
      ids_poisson = map ((!) ids_random) ?idx"
    using dist set by (auto simp: p2 p3 p4 p5 c(1) ids)
  then have p6: "\<exists>idx. distinct idx \<and> set idx \<subseteq> {..<length points_random} \<and>
      points_poisson = map ((!) points_random) idx \<and>
      ids_poisson = map ((!) ids_random) idx" ..
  from p1 p2 p3 p4 p5 p6 show ?thesis
    unfolding sid by (intro conjI)
qed
theorem stable_id_same_in_both_modes_witness:
  "initial_uniform_distribution example_host example_mesh 1 0 [] [] [] =
     ([float3 (2 / 3) (2 / 3) 0, float3 (1 / 2) 1 0],
      [float3 (1 / 3) (1 / 3) (1 / 3), float3 (1 / 4) (1 / 4) (1 / 2)], [0, 0]) \<and>
   eliminate_points_based_on_mask
     (create_elimination_mask_for_close_points
        [float3 (2 / 3) (2 / 3) 0, float3 (1 / 2) 1 0] (1 / 2)
        (replicate (length [float3 (2 / 3) (2 / 3) 0, float3 (1 / 2) 1 0]) False))
     [float3 (2 / 3) (2 / 3) 0, float3 (1 / 2) 1 0]
     [float3 (1 / 3) (1 / 3) (1 / 3), float3 (1 / 4) (1 / 4) (1 / 2)] [0, 0] =
     ([float3 (2 / 3) (2 / 3) 0], [float3 (1 / 3) (1 / 3) (1 / 3)], [0]) \<and>
   random_scatter_points_from_mesh example_host example_mesh 1 (\<lambda>v. 1) [] [] 0 =
     ([float3 (2 / 3) (2 / 3) 0, float3 (1 / 2) 1 0], [float3 0 0 1, float3 0 0 1],
      [333, 250]) \<and>
   stable_random_scatter_with_minimum_distance example_host example_mesh 1 (1 / 2)
       (\<lambda>v. 7) [] [] 0 =
     ([float3 (2 / 3) (2 / 3) 0], [float3 0 0 1], [333]) \<and>
   [float3 (2 / 3) (2 / 3) 0] = [float3 (2 / 3) (2 / 3) 0] \<and>
   [333 :: 32 word] =
     map2 (\<lambda>bary_coords looptri_index.
             ucast (float3_hash example_host bary_coords) + word_of_nat looptri_index)
       [float3 (1 / 3) (1 / 3) (1 / 3)] [0] \<and>
   [float3 (2 / 3) (2 / 3) 0, float3 (1 / 2) 1 0] =
     [float3 (2 / 3) (2 / 3) 0, float3 (1 / 2) 1 0] \<and>
   [333 :: 32 word, 250] =
     map2 (\<lambda>bary_coords looptri_index.
             ucast (float3_hash example_host bary_coords) + word_of_nat looptri_index)
       [float3 (1 / 3) (1 / 3) (1 / 3), float3 (1 / 4) (1 / 4) (1 / 2)] [0, 0] \<and>
   (\<exists>idx. distinct idx \<and>
      set idx \<subseteq> {..<length [float3 (2 / 3) (2 / 3) 0, float3 (1 / 2) 1 0]} \<and>
      [float3 (2 / 3) (2 / 3) 0] =
        map ((!) [float3 (2 / 3) (2 / 3) 0, float3 (1 / 2) 1 0]) idx \<and>
      [333 :: 32 word] = map ((!) [333, 250]) idx)"
proof -
  have h1: "initial_uniform_distribution example_host example_mesh 1 0 [] [] [] =
     ([float3 (2 / 3) (2 / 3) 0, float3 (1 / 2) 1 0],
      [float3 (1 / 3) (1 / 3) (1 / 3), float3 (1 / 4) (1 / 4) (1 / 2)], [0, 0])"
    by code_simp
  have h2: "eliminate_points_based_on_mask
     (create_elimination_mask_for_close_points
        [float3 (2 / 3) (2 / 3) 0, float3 (1 / 2) 1 0] (1 / 2)
        (replicate (length [float3 (2 / 3) (2 / 3) 0, float3 (1 / 2) 1 0]) False))
     [float3 (2 / 3) (2 / 3) 0, float3 (1 / 2) 1 0]
     [float3 (1 / 3) (1 / 3) (1 / 3), float3 (1 / 4) (1 / 4) (1 / 2)] [0, 0] =
     ([float3 (2 / 3) (2 / 3) 0], [float3 (1 / 3) (1 / 3) (1 / 3)], [0])"
    by code_simp
  have h3: "random_scatter_points_from_mesh example_host example_mesh 1 (\<lambda>v. 1) [] [] 0 =
     ([float3 (2 / 3) (2 / 3) 0, float3 (1 / 2) 1 0], [float3 0 0 1, float3 0 0 1],
      [333, 250])"
    by code_simp
  have h4: "stable_random_scatter_with_minimum_distance example_host example_mesh 1 (1 / 2)
       (\<lambda>v. 7) [] [] 0 =
     ([float3 (2 / 3) (2 / 3) 0], [float3 0 0 1], [333])"
    by code_simp
  note c = stable_id_same_in_both_modes [OF h1 h2 h3 h4, THEN conjunct2]
  show ?thesis
    by (rule conjI [OF h1 conjI [OF h2 conjI [OF h3 conjI [OF h4 c]]]])
qed

end
